theory Spec2Isabelle
  imports Complex_Main "HOL-Library.Char_ord" "HOL-Library.List_Lexorder"
begin

section \<open>JavaScript values and containers\<close>

text \<open>
  A JavaScript \<open>Map\<close> iterates in insertion order, and \<open>set\<close> on a key that is already
  present keeps the key's position. It is modelled as an association list with distinct
  keys. A \<open>Set\<close> is a list without duplicates, in insertion order.
\<close>

type_synonym ('k, 'v) jmap = "('k \<times> 'v) list"
type_synonym 'a jset = "'a list"

definition jmap_get :: "('k, 'v) jmap \<Rightarrow> 'k \<Rightarrow> 'v option" where
  "jmap_get m k = map_of m k"

definition jmap_has :: "('k, 'v) jmap \<Rightarrow> 'k \<Rightarrow> bool" where
  "jmap_has m k = (map_of m k \<noteq> None)"

fun jmap_set :: "('k, 'v) jmap \<Rightarrow> 'k \<Rightarrow> 'v \<Rightarrow> ('k, 'v) jmap" where
  "jmap_set [] k v = [(k, v)]"
| "jmap_set (p # m) k v = (if fst p = k then (k, v) # m else p # jmap_set m k v)"

definition jmap_delete :: "('k, 'v) jmap \<Rightarrow> 'k \<Rightarrow> ('k, 'v) jmap" where
  "jmap_delete m k = filter (\<lambda>p. fst p \<noteq> k) m"

definition jmap_keys :: "('k, 'v) jmap \<Rightarrow> 'k list" where
  "jmap_keys m = map fst m"

definition jmap_values :: "('k, 'v) jmap \<Rightarrow> 'v list" where
  "jmap_values m = map snd m"

definition jset_add :: "'a jset \<Rightarrow> 'a \<Rightarrow> 'a jset" where
  "jset_add s x = (if x \<in> set s then s else s @ [x])"

definition jset_delete :: "'a jset \<Rightarrow> 'a \<Rightarrow> 'a jset" where
  "jset_delete s x = removeAll x s"

text \<open>\<open>Array.prototype.join\<close> on an array of strings.\<close>

fun js_join :: "string \<Rightarrow> string list \<Rightarrow> string" where
  "js_join sep [] = []"
| "js_join sep [x] = x"
| "js_join sep (x # y # ys) = x @ sep @ js_join sep (y # ys)"

text \<open>
  Exceptions are values. \<open>RoutingError\<close> is the repository's own class; the others are the
  runtime's errors and whatever a plugged-in validator throws.
\<close>

datatype js_error =
    TypeError string
  | RangeError string
  | RoutingError string
  | Thrown string

fun error_message :: "js_error \<Rightarrow> string" where
  "error_message (TypeError m) = m"
| "error_message (RangeError m) = m"
| "error_message (RoutingError m) = m"
| "error_message (Thrown m) = m"

section \<open>Type definitions (types/intelligence)\<close>

datatype Protocol = MCP | REST | SOAP | GraphQL | WebSocket | Lambda

fun protocol_str :: "Protocol \<Rightarrow> string" where
  "protocol_str MCP = ''mcp''"
| "protocol_str REST = ''rest''"
| "protocol_str SOAP = ''soap''"
| "protocol_str GraphQL = ''graphql''"
| "protocol_str WebSocket = ''websocket''"
| "protocol_str Lambda = ''lambda''"

text \<open>
  \<open>ServerCapability\<close>: the optional fields \<open>package\<close>, \<open>url\<close>, \<open>auth\<close> and \<open>rateLimit\<close> are
  stored but never read by the registry, the router, the validation engine or the learning
  system, and are left out.
\<close>

record ServerCapability =
  protocol :: Protocol
  domains :: "string list"
  entities :: "string list"
  operations :: "string list"
  description :: string

datatype ServerStatus = Active | Inactive | Error

record ServerMetrics =
  totalRequests :: nat
  avgResponseTime :: real
  errorRate :: real

text \<open>
  \<open>ServerRegistration\<close>. Dates are milliseconds since the epoch. Numbers are exact reals:
  the rounding of IEEE doubles is not modelled. \<open>metrics\<close> and \<open>lastHealthCheck\<close> are
  optional in the interface, but every registration the registry holds was built by
  \<open>register\<close>, which sets both.
\<close>

record ServerRegistration =
  name :: string
  capability :: ServerCapability
  status :: ServerStatus
  lastHealthCheck :: int
  metrics :: ServerMetrics

datatype IntentAction =
    Query | Create | Update | Delete | Sync | Analyze | Compare | Summarize | Validate

fun action_str :: "IntentAction \<Rightarrow> string" where
  "action_str Query = ''query''"
| "action_str Create = ''create''"
| "action_str Update = ''update''"
| "action_str Delete = ''delete''"
| "action_str Sync = ''sync''"
| "action_str Analyze = ''analyze''"
| "action_str Compare = ''compare''"
| "action_str Summarize = ''summarize''"
| "action_str Validate = ''validate''"

datatype EntityRole = Subject | Object | FilterRole

record Entity =
  type :: string
  "value" :: string
  role :: "EntityRole option"
  confidence :: "real option"

text \<open>
  A value of type \<open>any\<close> (a filter's value, the routing parameters, a rule's payload).
  Numbers in such values are integers; objects list their own properties in insertion
  order.
\<close>

datatype jsval =
    JUndefined
  | JNull
  | JBool bool
  | JNum int
  | JStr string
  | JArr "jsval list"
  | JObj "(string \<times> jsval) list"

datatype FilterOperator =
    Equals | NotEquals | Contains | GreaterThan | LessThan | In | NotIn

fun operator_str :: "FilterOperator \<Rightarrow> string" where
  "operator_str Equals = ''equals''"
| "operator_str NotEquals = ''not_equals''"
| "operator_str Contains = ''contains''"
| "operator_str GreaterThan = ''greater_than''"
| "operator_str LessThan = ''less_than''"
| "operator_str In = ''in''"
| "operator_str NotIn = ''not_in''"

record Filter =
  field :: string
  operator :: FilterOperator
  "value" :: jsval

text \<open>A \<open>Date\<close> is its time value in milliseconds, or the invalid date.\<close>

datatype Date = Date int | InvalidDate

record TimeRange =
  start :: "Date option"
  "end" :: "Date option"
  relative :: "string option"

datatype AggregationType = AggCount | AggSum | AggAverage | AggMin | AggMax | AggGroupBy

fun aggregation_str :: "AggregationType \<Rightarrow> string" where
  "aggregation_str AggCount = ''count''"
| "aggregation_str AggSum = ''sum''"
| "aggregation_str AggAverage = ''average''"
| "aggregation_str AggMin = ''min''"
| "aggregation_str AggMax = ''max''"
| "aggregation_str AggGroupBy = ''group_by''"

text \<open>\<open>Intent.context\<close> is of type \<open>any\<close>; the code reads only its \<open>domain\<close>.\<close>

record IntentContext =
  domain :: "string option"

record Intent =
  action :: IntentAction
  entities :: "Entity list"
  filters :: "Filter list option"
  timeframe :: "TimeRange option"
  aggregation :: "AggregationType option"
  confidence :: "real option"
  "context" :: "IntentContext option"

text \<open>\<open>intent.context?.domain\<close> when it is truthy (a non-empty string).\<close>

definition context_domain :: "Intent \<Rightarrow> string option" where
  "context_domain intent =
     (case Intent.context intent of
        None \<Rightarrow> None
      | Some c \<Rightarrow> (case domain c of
                    None \<Rightarrow> None
                  | Some d \<Rightarrow> if d = [] then None else Some d))"

section \<open>Server registry (registry/ServerRegistry.ts)\<close>

text \<open>
  The registry's state. \<open>fuzzySearch\<close> is the collection handed to the fuzzy-search
  library by the last \<open>updateFuzzySearch\<close>: the registration objects themselves, held
  here by name and read from \<open>servers\<close> at search time, since a later change of an
  object's status or metrics is seen through the library's reference. It is \<open>None\<close>
  until \<open>initialize\<close>, \<open>register\<close> or \<open>unregister\<close> has run.
\<close>

record ServerRegistry =
  servers :: "(string, ServerRegistration) jmap"
  domainIndex :: "(string, string jset) jmap"
  entityIndex :: "(string, string jset) jmap"
  operationIndex :: "(string, string jset) jmap"
  fuzzySearch :: "string list option"

definition new_ServerRegistry :: ServerRegistry where
  "new_ServerRegistry =
     \<lparr>servers = [], domainIndex = [], entityIndex = [], operationIndex = [],
      fuzzySearch = None\<rparr>"

text \<open>
  The fuzzy-search library (fuse.js) is not part of the repository. It enters as a
  parameter: the score it gives a registration for a search pattern (0 is a perfect
  match), or \<open>None\<close> when the registration does not match within the configured
  threshold 0.4. A search lists the matching items of the collection by ascending score.
\<close>

type_synonym FuseScorer = "string \<Rightarrow> ServerRegistration \<Rightarrow> real option"

definition fuse_search ::
  "FuseScorer \<Rightarrow> ServerRegistration list \<Rightarrow> string \<Rightarrow> (ServerRegistration \<times> real) list" where
  "fuse_search fz coll pat =
     sort_key snd (List.map_filter (\<lambda>item. map_option (Pair item) (fz pat item)) coll)"

definition updateFuzzySearch :: "ServerRegistry \<Rightarrow> ServerRegistry" where
  "updateFuzzySearch reg = reg\<lparr>fuzzySearch := Some (jmap_keys (servers reg))\<rparr>"

definition initialize_registry :: "ServerRegistry \<Rightarrow> ServerRegistry" where
  "initialize_registry reg = updateFuzzySearch reg"

text \<open>One step of the three \<open>forEach\<close> loops of \<open>updateIndices\<close>.\<close>

definition index_add ::
  "string \<Rightarrow> (string, string jset) jmap \<Rightarrow> string \<Rightarrow> (string, string jset) jmap" where
  "index_add nm idx key =
     (let idx' = (if jmap_has idx key then idx else jmap_set idx key [])
      in case jmap_get idx' key of
           None \<Rightarrow> idx'
         | Some s \<Rightarrow> jmap_set idx' key (jset_add s nm))"

definition updateIndices :: "ServerRegistry \<Rightarrow> string \<Rightarrow> ServerCapability \<Rightarrow> ServerRegistry" where
  "updateIndices reg nm cap =
     reg\<lparr>domainIndex := foldl (index_add nm) (domainIndex reg) (domains cap),
         entityIndex := foldl (index_add nm) (entityIndex reg) (ServerCapability.entities cap),
         operationIndex := foldl (index_add nm) (operationIndex reg) (operations cap)\<rparr>"

definition register :: "int \<Rightarrow> ServerRegistry \<Rightarrow> string \<Rightarrow> ServerCapability \<Rightarrow> ServerRegistry" where
  "register now reg nm cap =
     (let registration =
            \<lparr>name = nm, capability = cap, status = Active, lastHealthCheck = now,
             metrics = \<lparr>totalRequests = 0, avgResponseTime = 0, errorRate = 0\<rparr>\<rparr>;
          reg1 = reg\<lparr>servers := jmap_set (servers reg) nm registration\<rparr>;
          reg2 = updateIndices reg1 nm cap
      in updateFuzzySearch reg2)"

text \<open>One step of the three \<open>forEach\<close> loops of \<open>unregister\<close>.\<close>

definition index_remove ::
  "string \<Rightarrow> (string, string jset) jmap \<Rightarrow> string \<Rightarrow> (string, string jset) jmap" where
  "index_remove nm idx key =
     (case jmap_get idx key of
        None \<Rightarrow> idx
      | Some s \<Rightarrow> jmap_set idx key (jset_delete s nm))"

definition unregister :: "ServerRegistry \<Rightarrow> string \<Rightarrow> ServerRegistry" where
  "unregister reg serverName =
     (case jmap_get (servers reg) serverName of
        None \<Rightarrow> reg
      | Some server \<Rightarrow>
          (let cap = capability server;
               reg1 = reg\<lparr>domainIndex := foldl (index_remove serverName) (domainIndex reg) (domains cap),
                          entityIndex := foldl (index_remove serverName) (entityIndex reg)
                                           (ServerCapability.entities cap),
                          operationIndex := foldl (index_remove serverName) (operationIndex reg)
                                              (operations cap)\<rparr>;
               reg2 = reg1\<lparr>servers := jmap_delete (servers reg1) serverName\<rparr>
           in updateFuzzySearch reg2))"

definition markHealthy :: "int \<Rightarrow> ServerRegistry \<Rightarrow> string \<Rightarrow> ServerRegistry" where
  "markHealthy now reg serverName =
     (case jmap_get (servers reg) serverName of
        None \<Rightarrow> reg
      | Some server \<Rightarrow>
          reg\<lparr>servers := jmap_set (servers reg) serverName
                             (server\<lparr>status := Active, lastHealthCheck := now\<rparr>)\<rparr>)"

definition markUnhealthy :: "ServerRegistry \<Rightarrow> string \<Rightarrow> ServerRegistry" where
  "markUnhealthy reg serverName =
     (case jmap_get (servers reg) serverName of
        None \<Rightarrow> reg
      | Some server \<Rightarrow>
          reg\<lparr>servers := jmap_set (servers reg) serverName (server\<lparr>status := Error\<rparr>)\<rparr>)"

text \<open>The body of the health-check timer: one sweep over all registrations.\<close>

definition healthCheckSweep :: "int \<Rightarrow> ServerRegistry \<Rightarrow> ServerRegistry" where
  "healthCheckSweep now reg =
     reg\<lparr>servers := map (\<lambda>(nm, server).
                          (nm, if now - lastHealthCheck server > 300000
                               then server\<lparr>status := Inactive\<rparr> else server))
                        (servers reg)\<rparr>"

definition updateMetrics :: "ServerRegistry \<Rightarrow> string \<Rightarrow> real \<Rightarrow> bool \<Rightarrow> ServerRegistry" where
  "updateMetrics reg serverName requestTime success =
     (case jmap_get (servers reg) serverName of
        None \<Rightarrow> reg
      | Some server \<Rightarrow>
          (let m = metrics server;
               n = totalRequests m + 1;
               avg = (avgResponseTime m * (real n - 1) + requestTime) / real n;
               er = (if \<not> success
                     then (errorRate m * (real n - 1) + 1) / real n
                     else (errorRate m * (real n - 1)) / real n);
               m' = \<lparr>totalRequests = n, avgResponseTime = avg, errorRate = er\<rparr>
           in reg\<lparr>servers := jmap_set (servers reg) serverName (server\<lparr>metrics := m'\<rparr>)\<rparr>))"

text \<open>
  The lookups of the registry turn the candidate names into registrations and keep the
  active ones: \<open>.map(name => this.servers.get(name)).filter(reg => reg && reg.status === 'active')\<close>.
\<close>

definition active_registrations :: "ServerRegistry \<Rightarrow> string list \<Rightarrow> ServerRegistration list" where
  "active_registrations reg names =
     List.map_filter
       (\<lambda>nm. case jmap_get (servers reg) nm of
                None \<Rightarrow> None
              | Some r \<Rightarrow> if status r = Active then Some r else None)
       names"

definition findServersByDomain :: "ServerRegistry \<Rightarrow> string \<Rightarrow> ServerRegistration list" where
  "findServersByDomain reg d =
     (case jmap_get (domainIndex reg) d of
        None \<Rightarrow> []
      | Some serverNames \<Rightarrow> active_registrations reg serverNames)"

definition findServersByEntity :: "ServerRegistry \<Rightarrow> string \<Rightarrow> ServerRegistration list" where
  "findServersByEntity reg entityType =
     (case jmap_get (entityIndex reg) entityType of
        None \<Rightarrow> []
      | Some serverNames \<Rightarrow> active_registrations reg serverNames)"

definition findServersByOperation :: "ServerRegistry \<Rightarrow> string \<Rightarrow> ServerRegistration list" where
  "findServersByOperation reg operation =
     (case jmap_get (operationIndex reg) operation of
        None \<Rightarrow> []
      | Some serverNames \<Rightarrow> active_registrations reg serverNames)"

text \<open>
  \<open>fuzzyFindServers\<close>. Calling \<open>search\<close> on a \<open>fuzzySearch\<close> that was never built is a
  \<open>TypeError\<close>.
\<close>

definition fuzzyFindServers ::
  "FuseScorer \<Rightarrow> ServerRegistry \<Rightarrow> Intent \<Rightarrow> js_error + ServerRegistration list" where
  "fuzzyFindServers fz reg intent =
     (let searchTerms =
            js_join '' ''
              ([action_str (action intent)]
               @ map type (Intent.entities intent)
               @ map Entity.value (Intent.entities intent))
      in case fuzzySearch reg of
           None \<Rightarrow> Inl (TypeError ''Cannot read properties of undefined (reading 'search')'')
         | Some coll \<Rightarrow>
             (let results = fuse_search fz (List.map_filter (jmap_get (servers reg)) coll) searchTerms
              in Inr (map fst (filter (\<lambda>result. snd result < 0.5) results))))"

definition findServersForIntent ::
  "FuseScorer \<Rightarrow> ServerRegistry \<Rightarrow> Intent \<Rightarrow> js_error + ServerRegistration list" where
  "findServersForIntent fz reg intent =
     (let c1 = foldl (\<lambda>candidates entity.
                        case jmap_get (entityIndex reg) (type entity) of
                          None \<Rightarrow> candidates
                        | Some ss \<Rightarrow> foldl jset_add candidates ss)
                 [] (Intent.entities intent);
          c2 = (case jmap_get (operationIndex reg) (action_str (action intent)) of
                  None \<Rightarrow> c1
                | Some operationServers \<Rightarrow> foldl jset_add c1 operationServers);
          c3 = (case context_domain intent of
                  None \<Rightarrow> c2
                | Some d \<Rightarrow> (case jmap_get (domainIndex reg) d of
                              None \<Rightarrow> c2
                            | Some domainServers \<Rightarrow> foldl jset_add c2 domainServers));
          registrations = active_registrations reg c3
      in if length registrations = 0 then fuzzyFindServers fz reg intent
         else Inr registrations)"

text \<open>
  \<open>rankServersByRelevance\<close>: the score of one server, and the stable sort by descending
  score (\<open>Array.prototype.sort\<close> is stable; \<open>sort_key\<close> is an insertion sort that keeps
  the order of equal keys).
\<close>

definition relevance_score :: "Intent \<Rightarrow> ServerRegistration \<Rightarrow> real" where
  "relevance_score intent server =
     (let entityMatches =
            length (filter (\<lambda>entity. type entity \<in> set (ServerCapability.entities (capability server)))
                      (Intent.entities intent));
          s1 = real entityMatches * 3;
          s2 = (if action_str (action intent) \<in> set (operations (capability server))
                then s1 + 5 else s1);
          s3 = (case context_domain intent of
                  None \<Rightarrow> s2
                | Some d \<Rightarrow> if d \<in> set (domains (capability server)) then s2 + 4 else s2);
          errorPenalty = errorRate (metrics server) * 2;
          timePenalty = (avgResponseTime (metrics server) / 1000) * 0.5
      in s3 - errorPenalty - timePenalty)"

definition rankServersByRelevance ::
  "ServerRegistration list \<Rightarrow> Intent \<Rightarrow> ServerRegistration list" where
  "rankServersByRelevance svs intent =
     map fst (sort_key (\<lambda>s. - snd s) (map (\<lambda>server. (server, relevance_score intent server)) svs))"

definition canHandleEntities :: "ServerRegistry \<Rightarrow> string \<Rightarrow> Entity list \<Rightarrow> bool" where
  "canHandleEntities reg serverName ents =
     (case jmap_get (servers reg) serverName of
        None \<Rightarrow> False
      | Some server \<Rightarrow>
          list_all (\<lambda>entity. type entity \<in> set (ServerCapability.entities (capability server))) ents)"

definition canPerformOperation :: "ServerRegistry \<Rightarrow> string \<Rightarrow> string \<Rightarrow> bool" where
  "canPerformOperation reg serverName operation =
     (case jmap_get (servers reg) serverName of
        None \<Rightarrow> False
      | Some server \<Rightarrow> operation \<in> set (operations (capability server)))"

section \<open>Strings of numbers, values and dates\<close>

text \<open>The decimal digits of a natural number, and of an integer (\<open>String(n)\<close>).\<close>

function show_nat :: "nat \<Rightarrow> string" where
  "show_nat n = (if n < 10 then [''0123456789'' ! n]
                 else show_nat (n div 10) @ [''0123456789'' ! (n mod 10)])"
  by pat_completeness auto
termination
  by (relation "measure id") auto

definition show_int :: "int \<Rightarrow> string" where
  "show_int i = (if i < 0 then CHR ''-'' # show_nat (nat (- i)) else show_nat (nat i))"

text \<open>
  The string a template literal gives a value: \<open>`${v}`\<close>. An array joins its elements
  with commas, \<open>null\<close> and \<open>undefined\<close> elements as empty strings; a plain object is
  \<open>[object Object]\<close>.
\<close>

fun js_toString :: "jsval \<Rightarrow> string" where
  "js_toString JUndefined = ''undefined''"
| "js_toString JNull = ''null''"
| "js_toString (JBool b) = (if b then ''true'' else ''false'')"
| "js_toString (JNum n) = show_int n"
| "js_toString (JStr s) = s"
| "js_toString (JArr xs) =
     js_join '',''
       (map (\<lambda>x. if x = JUndefined \<or> x = JNull then [] else js_toString x) xs)"
| "js_toString (JObj ps) = ''[object Object]''"

text \<open>A number left-padded with zeros to a width.\<close>

definition pad_nat :: "nat \<Rightarrow> nat \<Rightarrow> string" where
  "pad_nat w n = replicate (w - length (show_nat n)) CHR ''0'' @ show_nat n"

text \<open>
  \<open>Date.prototype.toISOString\<close>: a \<open>RangeError\<close> on the invalid date, else
  \<open>YYYY-MM-DDTHH:mm:ss.sssZ\<close> of the proleptic Gregorian calendar in UTC, the year with a
  sign and six digits outside 0..9999.
\<close>

definition civil_from_days :: "int \<Rightarrow> int \<times> nat \<times> nat" where
  "civil_from_days z0 =
     (let z = z0 + 719468;
          era = z div 146097;
          doe = z mod 146097;
          yoe = (doe - doe div 1460 + doe div 36524 - doe div 146096) div 365;
          doy = doe - (365 * yoe + yoe div 4 - yoe div 100);
          mp = (5 * doy + 2) div 153;
          d = doy - (153 * mp + 2) div 5 + 1;
          m = (if mp < 10 then mp + 3 else mp - 9);
          y = yoe + era * 400 + (if m \<le> 2 then 1 else 0)
      in (y, nat m, nat d))"

fun toISOString :: "Date \<Rightarrow> js_error + string" where
  "toISOString InvalidDate = Inl (RangeError ''Invalid time value'')"
| "toISOString (Date t) =
     (if t < - 8640000000000000 \<or> 8640000000000000 < t
      then Inl (RangeError ''Invalid time value'')
      else
        (let (y, m, d) = civil_from_days (t div 86400000);
             ms = nat (t mod 86400000);
             year = (if 0 \<le> y \<and> y \<le> 9999 then pad_nat 4 (nat y)
                     else (if y < 0 then ''-'' else ''+'') @ pad_nat 6 (nat \<bar>y\<bar>))
         in Inr (year @ ''-'' @ pad_nat 2 m @ ''-'' @ pad_nat 2 d @ ''T''
                 @ pad_nat 2 (ms div 3600000) @ '':''
                 @ pad_nat 2 (ms div 60000 mod 60) @ '':''
                 @ pad_nat 2 (ms div 1000 mod 60) @ ''.''
                 @ pad_nat 3 (ms mod 1000) @ ''Z'')))"

section \<open>Semantic router (routing/SemanticRouter.ts)\<close>

record RoutingAlternate =
  server :: string
  tool :: string
  params :: jsval
  protocol :: string
  confidence :: real

record RoutingDecision =
  server :: string
  tool :: string
  params :: jsval
  protocol :: string
  confidence :: real
  alternates :: "RoutingAlternate list"
  reasoning :: string

record SemanticRouter =
  routingCache :: "(string, RoutingDecision) jmap"

definition new_SemanticRouter :: SemanticRouter where
  "new_SemanticRouter = \<lparr>routingCache = []\<rparr>"

definition getCacheKey :: "Intent \<Rightarrow> string" where
  "getCacheKey intent =
     js_join ''|''
       ([action_str (action intent)]
        @ map (\<lambda>e. type e @ '':'' @ Entity.value e) (Intent.entities intent)
        @ map (\<lambda>f. field f @ '':'' @ operator_str (operator f) @ '':'' @ js_toString (Filter.value f))
            (case filters intent of None \<Rightarrow> [] | Some fs \<Rightarrow> fs))"

definition operationMap :: "IntentAction \<Rightarrow> string list option" where
  "operationMap a =
     (case a of
        Query \<Rightarrow> Some [''list'', ''get'', ''find'', ''search'', ''query'']
      | Create \<Rightarrow> Some [''create'', ''add'', ''insert'', ''post'']
      | Update \<Rightarrow> Some [''update'', ''modify'', ''patch'', ''put'']
      | Delete \<Rightarrow> Some [''delete'', ''remove'', ''destroy'']
      | Sync \<Rightarrow> Some [''sync'', ''synchronize'', ''replicate'']
      | Analyze \<Rightarrow> Some [''analyze'', ''aggregate'', ''report'']
      | _ \<Rightarrow> None)"

definition selectTool :: "ServerRegistration \<Rightarrow> Intent \<Rightarrow> string" where
  "selectTool sv intent =
     (let possibleOps = (case operationMap (action intent) of
                           None \<Rightarrow> [action_str (action intent)]
                         | Some ops \<Rightarrow> ops)
      in case List.find (\<lambda>op. op \<in> set (operations (capability sv))) possibleOps of
           Some op \<Rightarrow>
             (case Intent.entities intent of
                [] \<Rightarrow> op
              | e # _ \<Rightarrow> op @ ''_'' @ type e)
         | None \<Rightarrow>
             (case operations (capability sv) of
                [] \<Rightarrow> ''query''
              | op0 # _ \<Rightarrow> if op0 = [] then ''query'' else op0))"

text \<open>
  \<open>buildParameters\<close>. An assignment \<open>params[k] = v\<close> overwrites an own property in place
  or appends a new one. The steps run in the source's order, and the first failing
  \<open>toISOString\<close> ends the call.
\<close>

definition obj_set :: "(string \<times> jsval) list \<Rightarrow> string \<Rightarrow> jsval \<Rightarrow> (string \<times> jsval) list" where
  "obj_set ps k v = jmap_set ps k v"

definition buildParameters :: "Intent \<Rightarrow> js_error + jsval" where
  "buildParameters intent =
     (let p1 = (case filters intent of
                  None \<Rightarrow> []
                | Some fs \<Rightarrow> foldl (\<lambda>ps f. obj_set ps (field f) (Filter.value f)) [] fs);
          p2 = foldl (\<lambda>ps e. if role e = Some FilterRole
                                then obj_set ps (type e) (JStr (Entity.value e)) else ps)
                 p1 (Intent.entities intent)
      in case timeframe intent of
           None \<Rightarrow>
             Inr (JObj (case aggregation intent of
                          None \<Rightarrow> p2
                        | Some a \<Rightarrow> obj_set p2 ''aggregation'' (JStr (aggregation_str a))))
         | Some tf \<Rightarrow>
             (case (case start tf of
                      None \<Rightarrow> Inr p2
                    | Some d \<Rightarrow> map_sum id (\<lambda>iso. obj_set p2 ''startDate'' (JStr iso)) (toISOString d)) of
                Inl err \<Rightarrow> Inl err
              | Inr p3 \<Rightarrow>
                  (case (case TimeRange.end tf of
                           None \<Rightarrow> Inr p3
                         | Some d \<Rightarrow> map_sum id (\<lambda>iso. obj_set p3 ''endDate'' (JStr iso)) (toISOString d)) of
                     Inl err \<Rightarrow> Inl err
                   | Inr p4 \<Rightarrow>
                       (let p5 = (case relative tf of
                                    None \<Rightarrow> p4
                                  | Some r \<Rightarrow> if r = [] then p4 else obj_set p4 ''timeframe'' (JStr r))
                        in Inr (JObj (case aggregation intent of
                                        None \<Rightarrow> p5
                                      | Some a \<Rightarrow> obj_set p5 ''aggregation'' (JStr (aggregation_str a))))))))"

definition calculateRoutingConfidence :: "ServerRegistration \<Rightarrow> Intent \<Rightarrow> real" where
  "calculateRoutingConfidence sv intent =
     (let supportedEntities =
            filter (\<lambda>e. type e \<in> set (ServerCapability.entities (capability sv)))
              (Intent.entities intent);
          c1 = 0.5 + (real (length supportedEntities)
                      / real (max (length (Intent.entities intent)) 1)) * 0.2;
          c2 = (if action_str (action intent) \<in> set (operations (capability sv))
                then c1 + 0.2 else c1);
          healthScore = 1 - errorRate (metrics sv);
          c3 = c2 + healthScore * 0.1
      in min c3 1.0)"

definition generateRoutingReasoning :: "ServerRegistration \<Rightarrow> Intent \<Rightarrow> string" where
  "generateRoutingReasoning sv intent =
     (let supportedEntities =
            map type (filter (\<lambda>e. type e \<in> set (ServerCapability.entities (capability sv)))
                        (Intent.entities intent));
          r1 = (if length supportedEntities > 0
                then [''Supports entities: '' @ js_join '', '' supportedEntities] else []);
          r2 = (if action_str (action intent) \<in> set (operations (capability sv))
                then r1 @ [''Can perform '' @ action_str (action intent) @ '' operations'']
                else r1);
          r3 = (case context_domain intent of
                  None \<Rightarrow> r2
                | Some d \<Rightarrow> if d \<in> set (domains (capability sv))
                            then r2 @ [''Specializes in '' @ d] else r2);
          r4 = (if avgResponseTime (metrics sv) < 1000 then r3 @ [''Fast response time''] else r3)
      in js_join ''; '' r4)"

text \<open>
  The body of \<open>route\<close> inside its \<open>try\<close>. Every exception it can raise is raised before
  the cache is written, so a failure leaves the router as it was.
\<close>

definition route_try ::
  "FuseScorer \<Rightarrow> ServerRegistry \<Rightarrow> SemanticRouter \<Rightarrow> Intent
     \<Rightarrow> js_error + (RoutingDecision \<times> SemanticRouter)" where
  "route_try fz reg router intent =
     (let cacheKey = getCacheKey intent
      in case jmap_get (routingCache router) cacheKey of
           Some cached \<Rightarrow> Inr (cached, router)
         | None \<Rightarrow>
             (case findServersForIntent fz reg intent of
                Inl err \<Rightarrow> Inl err
              | Inr candidates \<Rightarrow>
                  if length candidates = 0 then Inl (RoutingError ''No servers found for intent'')
                  else
                  (case rankServersByRelevance candidates intent of
                     [] \<Rightarrow> Inl (TypeError ''Cannot read properties of undefined'')
                   | bestServer # others \<Rightarrow>
                       (case buildParameters intent of
                          Inl err \<Rightarrow> Inl err
                        | Inr ps \<Rightarrow>
                            (let decision =
                                   \<lparr>RoutingDecision.server = name bestServer,
                                    tool = selectTool bestServer intent,
                                    params = ps,
                                    protocol = protocol_str (ServerCapability.protocol (capability bestServer)),
                                    confidence = calculateRoutingConfidence bestServer intent,
                                    alternates =
                                      map (\<lambda>sv. \<lparr>RoutingAlternate.server = name sv,
                                                  tool = selectTool sv intent,
                                                  params = ps,
                                                  protocol = protocol_str (ServerCapability.protocol (capability sv)),
                                                  confidence = calculateRoutingConfidence sv intent\<rparr>)
                                        (take 2 others),
                                    reasoning = generateRoutingReasoning bestServer intent\<rparr>;
                                 cache1 = jmap_set (routingCache router) cacheKey decision;
                                 cache2 = (if length cache1 > 1000
                                           then (case jmap_keys cache1 of
                                                   [] \<Rightarrow> cache1
                                                 | firstKey # _ \<Rightarrow> jmap_delete cache1 firstKey)
                                           else cache1)
                             in Inr (decision, router\<lparr>routingCache := cache2\<rparr>))))))"

text \<open>
  \<open>route\<close>: the \<open>catch\<close> wraps whatever was thrown, the \<open>RoutingError\<close> for an empty
  candidate list included, into a new \<open>RoutingError\<close>.
\<close>

definition route ::
  "FuseScorer \<Rightarrow> ServerRegistry \<Rightarrow> SemanticRouter \<Rightarrow> Intent
     \<Rightarrow> (js_error + RoutingDecision) \<times> SemanticRouter" where
  "route fz reg router intent =
     (case route_try fz reg router intent of
        Inl err \<Rightarrow> (Inl (RoutingError (''Failed to route intent: '' @ error_message err)), router)
      | Inr (decision, router') \<Rightarrow> (Inr decision, router'))"

definition clearCache :: "SemanticRouter \<Rightarrow> SemanticRouter" where
  "clearCache router = router\<lparr>routingCache := []\<rparr>"

section \<open>Operations on values of type any\<close>

fun js_truthy :: "jsval \<Rightarrow> bool" where
  "js_truthy JUndefined = False"
| "js_truthy JNull = False"
| "js_truthy (JBool b) = b"
| "js_truthy (JNum n) = (n \<noteq> 0)"
| "js_truthy (JStr s) = (s \<noteq> [])"
| "js_truthy (JArr xs) = True"
| "js_truthy (JObj ps) = True"

text \<open>
  Reading a property \<open>v.k\<close>: a \<open>TypeError\<close> on \<open>undefined\<close> and \<open>null\<close>, the own property
  of an object, and \<open>undefined\<close> otherwise (inherited properties are not modelled; the
  code reads none).
\<close>

fun js_get :: "jsval \<Rightarrow> string \<Rightarrow> js_error + jsval" where
  "js_get JUndefined k = Inl (TypeError (''Cannot read properties of undefined (reading '' @ k @ '')''))"
| "js_get JNull k = Inl (TypeError (''Cannot read properties of null (reading '' @ k @ '')''))"
| "js_get (JObj ps) k = Inr (case map_of ps k of None \<Rightarrow> JUndefined | Some v \<Rightarrow> v)"
| "js_get v k = Inr JUndefined"

text \<open>\<open>Object.keys(v).length\<close> and \<open>Object.values(v)\<close> of a value that is not nullish.\<close>

fun keys_length :: "jsval \<Rightarrow> nat" where
  "keys_length (JObj ps) = length ps"
| "keys_length (JArr xs) = length xs"
| "keys_length (JStr s) = length s"
| "keys_length v = 0"

fun object_values :: "jsval \<Rightarrow> jsval list" where
  "object_values (JObj ps) = map snd ps"
| "object_values (JArr xs) = xs"
| "object_values (JStr s) = map (\<lambda>c. JStr [c]) s"
| "object_values v = []"

text \<open>\<open>JSON.stringify\<close>: \<open>None\<close> stands for the result \<open>undefined\<close>.\<close>

definition hex_digit :: "nat \<Rightarrow> char" where
  "hex_digit n = ''0123456789abcdef'' ! (n mod 16)"

definition json_escape :: "char \<Rightarrow> string" where
  "json_escape c =
     (if c = CHR 0x22 then [CHR 0x5C, CHR 0x22]
      else if c = CHR 0x5C then [CHR 0x5C, CHR 0x5C]
      else if c = CHR 0x08 then [CHR 0x5C, CHR ''b'']
      else if c = CHR 0x0C then [CHR 0x5C, CHR ''f'']
      else if c = CHR 0x0A then [CHR 0x5C, CHR ''n'']
      else if c = CHR 0x0D then [CHR 0x5C, CHR ''r'']
      else if c = CHR 0x09 then [CHR 0x5C, CHR ''t'']
      else if (of_char c :: nat) < 32
      then [CHR 0x5C, CHR ''u'', CHR ''0'', CHR ''0'', hex_digit (of_char c div 16), hex_digit (of_char c)]
      else [c])"

definition json_quote :: "string \<Rightarrow> string" where
  "json_quote s = [CHR 0x22] @ concat (map json_escape s) @ [CHR 0x22]"

fun json_stringify :: "jsval \<Rightarrow> string option" where
  "json_stringify JUndefined = None"
| "json_stringify JNull = Some ''null''"
| "json_stringify (JBool b) = Some (if b then ''true'' else ''false'')"
| "json_stringify (JNum n) = Some (show_int n)"
| "json_stringify (JStr s) = Some (json_quote s)"
| "json_stringify (JArr xs) =
     Some (''['' @ js_join '',''
                    (map (\<lambda>x. case json_stringify x of None \<Rightarrow> ''null'' | Some t \<Rightarrow> t) xs)
           @ '']'')"
| "json_stringify (JObj ps) =
     Some (''{'' @ js_join '',''
                    (concat (map (\<lambda>p. case json_stringify (snd p) of
                                         None \<Rightarrow> []
                                       | Some t \<Rightarrow> [json_quote (fst p) @ '':'' @ t]) ps))
           @ ''}'')"

text \<open>
  The regular expression
  \<open>/(\bDROP\b|\bDELETE\b|\bUNION\b|\bSELECT\b.*\bFROM\b)/i\<close> and its \<open>test\<close>. A keyword
  matches at a position when the text there equals it up to the case of ASCII letters and
  both ends are word boundaries; \<open>.\<close> matches any character but a line terminator.
\<close>

definition is_word_char :: "char \<Rightarrow> bool" where
  "is_word_char c =
     (let n = (of_char c :: nat)
      in (48 \<le> n \<and> n \<le> 57) \<or> (65 \<le> n \<and> n \<le> 90) \<or> (97 \<le> n \<and> n \<le> 122) \<or> n = 95)"

definition ascii_lower :: "char \<Rightarrow> char" where
  "ascii_lower c =
     (let n = (of_char c :: nat) in if 65 \<le> n \<and> n \<le> 90 then char_of (n + 32) else c)"

definition keyword_at :: "string \<Rightarrow> string \<Rightarrow> nat \<Rightarrow> bool" where
  "keyword_at w s i =
     (i + length w \<le> length s
      \<and> map ascii_lower (take (length w) (drop i s)) = w
      \<and> (if i = 0 then True else \<not> is_word_char (s ! (i - 1)))
      \<and> (if i + length w = length s then True else \<not> is_word_char (s ! (i + length w))))"

definition keyword_in :: "string \<Rightarrow> string \<Rightarrow> bool" where
  "keyword_in w s = list_ex (keyword_at w s) [0..<length s]"

definition line_terminator :: "char \<Rightarrow> bool" where
  "line_terminator c = (c = CHR 0x0A \<or> c = CHR 0x0D)"

definition select_from_in :: "string \<Rightarrow> bool" where
  "select_from_in s =
     list_ex (\<lambda>i. keyword_at ''select'' s i
                 \<and> list_ex (\<lambda>j. i + 6 \<le> j \<and> keyword_at ''from'' s j
                                  \<and> list_all (\<lambda>c. \<not> line_terminator c) (take (j - (i + 6)) (drop (i + 6) s)))
                     [0..<length s])
       [0..<length s]"

definition suspiciousPatterns_test :: "string \<Rightarrow> bool" where
  "suspiciousPatterns_test s =
     (keyword_in ''drop'' s \<or> keyword_in ''delete'' s \<or> keyword_in ''union'' s \<or> select_from_in s)"

section \<open>Validation engine (validation/ValidationEngine.ts)\<close>

text \<open>
  The caller's context is of type \<open>any\<close>; the engine reads \<open>context.currentUser\<close> and,
  of the user, \<open>permissions\<close> and \<open>role\<close>.
\<close>

record ValidationUser =
  permissions :: "string list option"
  userRole :: "string option"

record ValidationContext =
  currentUser :: "ValidationUser option"

datatype Metadata =
    OperationMetadata (validatedAt: int) (rulesApplied: nat) (metaContext: "ValidationContext option")
  | ResultMetadata (resultType: string) (resultCount: nat)

record ValidationResult =
  isValid :: bool
  errors :: "string list"
  warnings :: "string list option"
  suggestions :: "string list option"
  metadata :: "Metadata option"

datatype RuleType = Business | Data | Permission | Integrity
datatype Severity = SevError | SevWarning | SevInfo

text \<open>
  \<open>ValidationRule\<close>. The fields \<open>id\<close>, \<open>name\<close> and \<open>type\<close> carry the prefix \<open>rule\<close>.
  A \<open>condition\<close> gives the truthiness of what the JavaScript predicate returns, or the
  exception it raises.
\<close>

record ValidationRule =
  ruleId :: string
  ruleName :: string
  ruleType :: RuleType
  condition :: "jsval \<Rightarrow> js_error + bool"
  message :: string
  severity :: Severity

type_synonym CustomValidator = "jsval \<Rightarrow> js_error + ValidationResult"

record ValidationEngine =
  rules :: "(string, ValidationRule list) jmap"
  customValidators :: "(string, CustomValidator) jmap"

definition new_ValidationEngine :: ValidationEngine where
  "new_ValidationEngine = \<lparr>rules = [], customValidators = []\<rparr>"

definition addRule :: "ValidationEngine \<Rightarrow> string \<Rightarrow> string \<Rightarrow> ValidationRule \<Rightarrow> ValidationEngine" where
  "addRule eng sv act rule =
     (let key = sv @ '':'' @ act;
          rs = (if jmap_has (rules eng) key then rules eng else jmap_set (rules eng) key [])
      in case jmap_get rs key of
           None \<Rightarrow> eng\<lparr>rules := rs\<rparr>
         | Some l \<Rightarrow> eng\<lparr>rules := jmap_set rs key (l @ [rule])\<rparr>)"

definition registerValidator :: "ValidationEngine \<Rightarrow> string \<Rightarrow> CustomValidator \<Rightarrow> ValidationEngine" where
  "registerValidator eng sv validator =
     eng\<lparr>customValidators := jmap_set (customValidators eng) sv validator\<rparr>"

definition getRules :: "ValidationEngine \<Rightarrow> string \<Rightarrow> string \<Rightarrow> ValidationRule list" where
  "getRules eng sv act =
     (let specific = (case jmap_get (rules eng) (sv @ '':'' @ act) of None \<Rightarrow> [] | Some l \<Rightarrow> l);
          general = (case jmap_get (rules eng) (''*:'' @ act) of None \<Rightarrow> [] | Some l \<Rightarrow> l)
      in general @ specific)"

text \<open>The conditions of the built-in rules.\<close>

definition cond_require_data :: "jsval \<Rightarrow> js_error + bool" where
  "cond_require_data data = Inr (js_truthy data \<and> keys_length data > 0)"

definition cond_require_id :: "jsval \<Rightarrow> js_error + bool" where
  "cond_require_id data =
     (if \<not> js_truthy data then Inr False
      else case js_get data ''id'' of
             Inl err \<Rightarrow> Inl err
           | Inr v \<Rightarrow> if js_truthy v then Inr True
                      else map_sum id js_truthy (js_get data ''_id''))"

text \<open>\<open>(data) => data.k1 || data.k2\<close>\<close>

definition cond_either :: "string \<Rightarrow> string \<Rightarrow> jsval \<Rightarrow> js_error + bool" where
  "cond_either k1 k2 data =
     (case js_get data k1 of
        Inl err \<Rightarrow> Inl err
      | Inr v \<Rightarrow> if js_truthy v then Inr True
                 else map_sum id js_truthy (js_get data k2))"

definition validPriorities :: "string list" where
  "validPriorities = [''emergency'', ''high'', ''medium'', ''low'']"

definition cond_wo_priority_valid :: "jsval \<Rightarrow> js_error + bool" where
  "cond_wo_priority_valid data =
     (case js_get data ''work_order'' of
        Inl err \<Rightarrow> Inl err
      | Inr w1 \<Rightarrow>
          (case (if js_truthy w1 then Inr w1 else js_get data ''workOrder'') of
             Inl err \<Rightarrow> Inl err
           | Inr wo \<Rightarrow>
               if \<not> js_truthy wo then Inr True
               else (case js_get wo ''priority'' of
                       Inl err \<Rightarrow> Inl err
                     | Inr pr \<Rightarrow>
                         Inr (\<not> js_truthy pr
                              \<or> (case pr of JStr t \<Rightarrow> t \<in> set validPriorities | _ \<Rightarrow> False)))))"

definition loadDefaultRules :: "ValidationEngine \<Rightarrow> ValidationEngine" where
  "loadDefaultRules eng =
     (let e1 = addRule eng ''*'' ''create''
                 \<lparr>ruleId = ''require-data'', ruleName = ''Require data for create'',
                  ruleType = Data, condition = cond_require_data,
                  message = ''Create operation requires data'', severity = SevError\<rparr>
      in addRule e1 ''*'' ''update''
           \<lparr>ruleId = ''require-id'', ruleName = ''Require ID for update'',
            ruleType = Data, condition = cond_require_id,
            message = ''Update operation requires an ID'', severity = SevError\<rparr>)"

definition loadPropertyManagementRules :: "ValidationEngine \<Rightarrow> ValidationEngine" where
  "loadPropertyManagementRules eng =
     (let e1 = addRule eng ''propertyware'' ''create''
                 \<lparr>ruleId = ''pw-portfolio-required'', ruleName = ''Portfolio required'',
                  ruleType = Business, condition = cond_either ''portfolioId'' ''portfolio'',
                  message = ''PropertyWare operations require a portfolio'', severity = SevError\<rparr>;
          e2 = addRule e1 ''servicefusion'' ''create''
                 \<lparr>ruleId = ''sf-customer-required'', ruleName = ''Customer required'',
                  ruleType = Business, condition = cond_either ''customerId'' ''customer'',
                  message = ''ServiceFusion jobs require a customer'', severity = SevError\<rparr>
      in addRule e2 ''*'' ''create''
           \<lparr>ruleId = ''wo-priority-valid'', ruleName = ''Valid work order priority'',
            ruleType = Business, condition = cond_wo_priority_valid,
            message = ''Invalid work order priority'', severity = SevError\<rparr>)"

definition initialize_engine :: "ValidationEngine \<Rightarrow> ValidationEngine" where
  "initialize_engine eng = loadPropertyManagementRules (loadDefaultRules eng)"

text \<open>\<open>validateParameters\<close> gives its errors and warnings (\<open>isValid\<close> is not read).\<close>

definition validateParameters :: "jsval \<Rightarrow> Intent \<Rightarrow> string list \<times> string list" where
  "validateParameters ps intent =
     (let e1 = (case action intent of
                  Create \<Rightarrow> if \<not> js_truthy ps \<or> keys_length ps = 0
                             then [''Create operation requires data''] else []
                | Update \<Rightarrow> if \<not> js_truthy ps \<or> \<not> js_truthy (case js_get ps ''id'' of Inl _ \<Rightarrow> JUndefined | Inr v \<Rightarrow> v)
                             then [''Update operation requires an ID''] else []
                | Delete \<Rightarrow> if \<not> js_truthy ps \<or> \<not> js_truthy (case js_get ps ''id'' of Inl _ \<Rightarrow> JUndefined | Inr v \<Rightarrow> v)
                             then [''Delete operation requires an ID''] else []
                | _ \<Rightarrow> [])
      in if js_truthy ps
         then (e1 @ concat (map (\<lambda>v. case v of
                                        JStr t \<Rightarrow> if suspiciousPatterns_test t
                                                   then [''Potentially malicious input detected''] else []
                                      | _ \<Rightarrow> [])
                              (object_values ps)),
               if length (case json_stringify ps of None \<Rightarrow> [] | Some t \<Rightarrow> t) > 100000
               then [''Large parameter size may affect performance''] else [])
         else (e1, []))"

definition requiredPermissions :: "IntentAction \<Rightarrow> string list" where
  "requiredPermissions a =
     (case a of
        Create \<Rightarrow> [''write'', ''admin'']
      | Update \<Rightarrow> [''write'', ''admin'']
      | Delete \<Rightarrow> [''admin'']
      | Sync \<Rightarrow> [''admin'']
      | Query \<Rightarrow> [''read'', ''write'', ''admin'']
      | _ \<Rightarrow> [''admin''])"

definition validatePermissions :: "ValidationUser \<Rightarrow> IntentAction \<Rightarrow> string \<Rightarrow> string list" where
  "validatePermissions user a sv =
     (let hasPermission =
            list_ex (\<lambda>perm. (case permissions user of None \<Rightarrow> False | Some l \<Rightarrow> perm \<in> set l)
                            \<or> userRole user = Some ''admin'')
              (requiredPermissions a);
          e1 = (if \<not> hasPermission
                then [''User lacks permission for '' @ action_str a @ '' operation''] else [])
      in if sv = ''propertyware'' \<and> userRole user = Some ''tenant''
         then e1 @ [''Tenants cannot access PropertyWare directly''] else e1)"

text \<open>
  The loop over the business rules: the errors and warnings so far, extended by each rule
  whose condition is falsy; a condition that throws ends the loop with its exception.
\<close>

fun applyBusinessRules ::
  "ValidationRule list \<Rightarrow> jsval \<Rightarrow> string list \<times> string list \<Rightarrow> js_error + (string list \<times> string list)" where
  "applyBusinessRules [] ps acc = Inr acc"
| "applyBusinessRules (rule # rs) ps acc =
     (case condition rule ps of
        Inl err \<Rightarrow> Inl err
      | Inr holds \<Rightarrow>
          applyBusinessRules rs ps
            (if holds then acc
             else if severity rule = SevError then (fst acc @ [message rule], snd acc)
             else if severity rule = SevWarning then (fst acc, snd acc @ [message rule])
             else acc))"

text \<open>
  \<open>validateOperation\<close>. The custom validator is awaited outside any \<open>try\<close>: what it
  throws (or rejects with) leaves \<open>validateOperation\<close> as its own exception.
\<close>

definition validateOperation ::
  "int \<Rightarrow> ValidationEngine \<Rightarrow> RoutingDecision \<Rightarrow> Intent \<Rightarrow> ValidationContext option
     \<Rightarrow> js_error + ValidationResult" where
  "validateOperation now eng routing intent ctx =
     (let (pe, pw) = validateParameters (params routing) intent;
          errors1 = pe;
          warnings1 = pw;
          errors2 = (case ctx of
                       None \<Rightarrow> errors1
                     | Some c \<Rightarrow>
                         (case currentUser c of
                            None \<Rightarrow> errors1
                          | Some user \<Rightarrow>
                              errors1 @ validatePermissions user (action intent)
                                          (RoutingDecision.server routing)));
          businessRules =
            (case jmap_get (rules eng)
                    (RoutingDecision.server routing @ '':'' @ action_str (action intent)) of
               None \<Rightarrow> []
             | Some l \<Rightarrow> l)
      in case applyBusinessRules businessRules (params routing) (errors2, warnings1) of
           Inl err \<Rightarrow> Inl err
         | Inr (errors3, warnings3) \<Rightarrow>
             (case (case jmap_get (customValidators eng) (RoutingDecision.server routing) of
                      None \<Rightarrow> Inr (errors3, warnings3, [])
                    | Some customValidator \<Rightarrow>
                        (case customValidator (params routing) of
                           Inl err \<Rightarrow> Inl err
                         | Inr customResult \<Rightarrow>
                             Inr (errors3 @ errors customResult,
                                  warnings3 @ (case warnings customResult of None \<Rightarrow> [] | Some w \<Rightarrow> w),
                                  (case suggestions customResult of None \<Rightarrow> [] | Some g \<Rightarrow> g)))) of
                Inl err \<Rightarrow> Inl err
              | Inr (errors4, warnings4, suggestions4) \<Rightarrow>
                  Inr \<lparr>isValid = (length errors4 = 0),
                       errors = errors4,
                       warnings = Some warnings4,
                       suggestions = Some suggestions4,
                       metadata = Some (OperationMetadata now (length businessRules) ctx)\<rparr>))"

section \<open>Learning system (learning/LearningSystem.ts)\<close>

record QueryPattern =
  pattern :: string
  frequency :: nat
  avgDuration :: real
  successRate :: real
  lastUsed :: int

text \<open>The per-pattern statistics of one server, \<open>{ count, successRate }\<close>.\<close>

record PatternPerformance =
  count :: nat
  patternSuccessRate :: real

record ServerPerformance =
  totalRequests :: nat
  successfulRequests :: nat
  avgResponseTime :: real
  errorRate :: real
  patterns :: "(string, PatternPerformance) jmap"

record UserFeedback =
  helpful :: bool
  rating :: "real option"
  comment :: "string option"
  correctServer :: "string option"
  correctAction :: "string option"

record LearningInteraction =
  query :: string
  intent :: Intent
  routing :: RoutingDecision
  result :: jsval
  duration :: real
  validation :: ValidationResult
  timestamp :: "int option"
  feedback :: "UserFeedback option"

record LearningSystem =
  interactions :: "LearningInteraction list"
  patterns :: "(string, QueryPattern) jmap"
  serverPerformance :: "(string, ServerPerformance) jmap"
  maxHistorySize :: nat

definition new_LearningSystem :: "nat \<Rightarrow> LearningSystem" where
  "new_LearningSystem maxHistory =
     \<lparr>interactions = [], LearningSystem.patterns = [], serverPerformance = [],
      maxHistorySize = maxHistory\<rparr>"

text \<open>
  \<open>getPatternKey\<close>: the action, the entity types in the order of \<open>Array.prototype.sort\<close>
  (by code units), and the relative timeframe, the empty strings dropped, joined by colons.
\<close>

definition getPatternKey :: "Intent \<Rightarrow> string" where
  "getPatternKey i =
     js_join '':''
       (filter (\<lambda>x. x \<noteq> [])
          ([action_str (action i)]
           @ sort (map type (Intent.entities i))
           @ [case timeframe i of
                None \<Rightarrow> []
              | Some tf \<Rightarrow> (case relative tf of None \<Rightarrow> [] | Some r \<Rightarrow> r)]))"

definition updatePatterns :: "int \<Rightarrow> LearningSystem \<Rightarrow> LearningInteraction \<Rightarrow> LearningSystem" where
  "updatePatterns now ls interaction =
     (let key = getPatternKey (intent interaction);
          ps1 = (if \<not> jmap_has (LearningSystem.patterns ls) key
                 then jmap_set (LearningSystem.patterns ls) key
                        \<lparr>pattern = query interaction, frequency = 0, avgDuration = 0,
                         successRate = 0, lastUsed = now\<rparr>
                 else LearningSystem.patterns ls)
      in case jmap_get ps1 key of
           None \<Rightarrow> ls\<lparr>LearningSystem.patterns := ps1\<rparr>
         | Some p \<Rightarrow>
             (let n = frequency p + 1;
                  avg = (avgDuration p * (real n - 1) + duration interaction) / real n;
                  success = (if isValid (validation interaction) then 1 else 0);
                  rate = (successRate p * (real n - 1) + success) / real n
              in ls\<lparr>LearningSystem.patterns :=
                      jmap_set ps1 key
                        (p\<lparr>frequency := n, avgDuration := avg, successRate := rate,
                           lastUsed := now\<rparr>)\<rparr>))"

definition updateServerPerformance :: "LearningSystem \<Rightarrow> LearningInteraction \<Rightarrow> LearningSystem" where
  "updateServerPerformance ls interaction =
     (let sv = RoutingDecision.server (routing interaction);
          sp1 = (if \<not> jmap_has (serverPerformance ls) sv
                 then jmap_set (serverPerformance ls) sv
                        \<lparr>ServerPerformance.totalRequests = 0, successfulRequests = 0,
                         ServerPerformance.avgResponseTime = 0, ServerPerformance.errorRate = 0,
                         ServerPerformance.patterns = []\<rparr>
                 else serverPerformance ls)
      in case jmap_get sp1 sv of
           None \<Rightarrow> ls\<lparr>serverPerformance := sp1\<rparr>
         | Some perf \<Rightarrow>
             (let total = ServerPerformance.totalRequests perf + 1;
                  ok = (if isValid (validation interaction)
                        then successfulRequests perf + 1 else successfulRequests perf);
                  avg = (ServerPerformance.avgResponseTime perf * (real total - 1) + duration interaction)
                        / real total;
                  er = 1 - real ok / real total;
                  patternKey = getPatternKey (intent interaction);
                  pp1 = (if \<not> jmap_has (ServerPerformance.patterns perf) patternKey
                         then jmap_set (ServerPerformance.patterns perf) patternKey
                                \<lparr>count = 0, patternSuccessRate = 0\<rparr>
                         else ServerPerformance.patterns perf);
                  pp2 = (case jmap_get pp1 patternKey of
                           None \<Rightarrow> pp1
                         | Some patternPerf \<Rightarrow>
                             (let c = count patternPerf + 1
                              in jmap_set pp1 patternKey
                                   \<lparr>count = c,
                                    patternSuccessRate =
                                      (patternSuccessRate patternPerf * (real c - 1)
                                       + (if isValid (validation interaction) then 1 else 0))
                                      / real c\<rparr>))
              in ls\<lparr>serverPerformance :=
                      jmap_set sp1 sv
                        \<lparr>ServerPerformance.totalRequests = total, successfulRequests = ok,
                         ServerPerformance.avgResponseTime = avg, ServerPerformance.errorRate = er,
                         ServerPerformance.patterns = pp2\<rparr>\<rparr>))"

text \<open>
  \<open>recordInteraction\<close>. \<open>slice(-maxHistorySize)\<close> keeps the last \<open>maxHistorySize\<close>
  elements, and the whole array when \<open>maxHistorySize\<close> is 0. Saving to disk does not
  change the state and its failures are caught.
\<close>

definition recordInteraction :: "int \<Rightarrow> LearningSystem \<Rightarrow> LearningInteraction \<Rightarrow> LearningSystem" where
  "recordInteraction now ls interaction0 =
     (let interaction = interaction0\<lparr>timestamp := Some now\<rparr>;
          h1 = interactions ls @ [interaction];
          h2 = (if length h1 > maxHistorySize ls
                then (if maxHistorySize ls = 0 then h1 else drop (length h1 - maxHistorySize ls) h1)
                else h1);
          ls1 = ls\<lparr>interactions := h2\<rparr>;
          ls2 = updatePatterns now ls1 interaction
      in updateServerPerformance ls2 interaction)"

text \<open>A run of \<open>recordInteraction\<close> calls, each with its time.\<close>

fun recordInteractions :: "LearningSystem \<Rightarrow> (int \<times> LearningInteraction) list \<Rightarrow> LearningSystem" where
  "recordInteractions ls [] = ls"
| "recordInteractions ls (c # cs) = recordInteractions (recordInteraction (fst c) ls (snd c)) cs"

text \<open>The identifier \<open>`${i.timestamp?.getTime()}-${i.query}`\<close>.\<close>

definition interactionId :: "LearningInteraction \<Rightarrow> string" where
  "interactionId i =
     (case timestamp i of None \<Rightarrow> ''undefined'' | Some t \<Rightarrow> show_int t) @ ''-'' @ query i"

definition adjustServerPreference ::
  "LearningSystem \<Rightarrow> Intent \<Rightarrow> string \<Rightarrow> string \<Rightarrow> LearningSystem" where
  "adjustServerPreference ls i preferredServer currentServer =
     (let sp1 = (case jmap_get (serverPerformance ls) preferredServer of
                   None \<Rightarrow> serverPerformance ls
                 | Some preferred \<Rightarrow>
                     jmap_set (serverPerformance ls) preferredServer
                       (preferred\<lparr>successfulRequests := successfulRequests preferred + 1,
                                  ServerPerformance.totalRequests :=
                                    ServerPerformance.totalRequests preferred + 1\<rparr>));
          sp2 = (case jmap_get sp1 currentServer of
                   None \<Rightarrow> sp1
                 | Some current \<Rightarrow>
                     jmap_set sp1 currentServer
                       (current\<lparr>ServerPerformance.errorRate :=
                                  min (ServerPerformance.errorRate current + 0.1) 1\<rparr>))
      in ls\<lparr>serverPerformance := sp2\<rparr>)"

text \<open>The first element that satisfies a predicate, changed in place.\<close>

fun update_first :: "('a \<Rightarrow> bool) \<Rightarrow> ('a \<Rightarrow> 'a) \<Rightarrow> 'a list \<Rightarrow> 'a list" where
  "update_first P f [] = []"
| "update_first P f (x # xs) = (if P x then f x # xs else x # update_first P f xs)"

definition recordFeedback :: "LearningSystem \<Rightarrow> string \<Rightarrow> UserFeedback \<Rightarrow> LearningSystem" where
  "recordFeedback ls iid fb =
     (case List.find (\<lambda>i. interactionId i = iid) (interactions ls) of
        None \<Rightarrow> ls
      | Some interaction \<Rightarrow>
          (let ls1 = ls\<lparr>interactions :=
                          update_first (\<lambda>i. interactionId i = iid) (\<lambda>i. i\<lparr>feedback := Some fb\<rparr>)
                            (interactions ls)\<rparr>
           in case correctServer fb of
                None \<Rightarrow> ls1
              | Some cs \<Rightarrow>
                  if helpful fb = False \<and> cs \<noteq> []
                  then adjustServerPreference ls1 (intent interaction) cs
                         (RoutingDecision.server (routing interaction))
                  else ls1))"

definition getServerPerformance :: "LearningSystem \<Rightarrow> string \<Rightarrow> ServerPerformance option" where
  "getServerPerformance ls serverName = jmap_get (serverPerformance ls) serverName"

section \<open>Derived notions and scenario values\<close>

text \<open>Runs of calls, and the parts of the functions above that the properties speak of.\<close>

fun route_calls ::
  "FuseScorer \<Rightarrow> SemanticRouter \<Rightarrow> (ServerRegistry \<times> Intent) list \<Rightarrow> SemanticRouter" where
  "route_calls fz router [] = router"
| "route_calls fz router (c # cs) = route_calls fz (snd (route fz (fst c) router (snd c))) cs"

text \<open>The cache write of \<open>route\<close>: \<open>set\<close>, then the eviction of the first key past 1000 entries.\<close>

definition cache_insert ::
  "(string, RoutingDecision) jmap \<Rightarrow> string \<Rightarrow> RoutingDecision \<Rightarrow> (string, RoutingDecision) jmap" where
  "cache_insert c k d =
     (let cache1 = jmap_set c k d
      in if length cache1 > 1000
         then (case jmap_keys cache1 of [] \<Rightarrow> cache1 | firstKey # _ \<Rightarrow> jmap_delete cache1 firstKey)
         else cache1)"

definition cache_ok :: "(string, RoutingDecision) jmap \<Rightarrow> bool" where
  "cache_ok c = (distinct (map fst c) \<and> length c \<le> 1000)"

text \<open>\<open>intent.filters || []\<close>\<close>

definition filters_or_empty :: "Intent \<Rightarrow> Filter list" where
  "filters_or_empty i = (case filters i of None \<Rightarrow> [] | Some fs \<Rightarrow> fs)"

text \<open>The rules \<open>validateOperation\<close> reads: those under the key \<open>server:action\<close>.\<close>

definition businessRulesOf :: "ValidationEngine \<Rightarrow> RoutingDecision \<Rightarrow> Intent \<Rightarrow> ValidationRule list" where
  "businessRulesOf eng rd i =
     (case jmap_get (rules eng) (RoutingDecision.server rd @ '':'' @ action_str (action i)) of
        None \<Rightarrow> []
      | Some l \<Rightarrow> l)"

text \<open>The statistics of a pattern key, zero when the key has no pattern yet.\<close>

definition pattern_stats :: "LearningSystem \<Rightarrow> string \<Rightarrow> nat \<times> real \<times> real" where
  "pattern_stats ls k =
     (case jmap_get (LearningSystem.patterns ls) k of
        None \<Rightarrow> (0, 0, 0)
      | Some p \<Rightarrow> (frequency p, avgDuration p, successRate p))"

text \<open>\<open>interaction.validation.isValid ? 1 : 0\<close>\<close>

definition validity :: "LearningInteraction \<Rightarrow> real" where
  "validity ia = (if isValid (validation ia) then 1 else 0)"

text \<open>Values with the fields a scenario does not mention left empty.\<close>

definition mkCapability :: "string list \<Rightarrow> string list \<Rightarrow> string list \<Rightarrow> ServerCapability" where
  "mkCapability ds es ops =
     \<lparr>ServerCapability.protocol = MCP, domains = ds, ServerCapability.entities = es,
      operations = ops, description = []\<rparr>"

definition mkEntity :: "string \<Rightarrow> string \<Rightarrow> Entity" where
  "mkEntity t v = \<lparr>type = t, Entity.value = v, role = None, Entity.confidence = None\<rparr>"

definition mkIntent :: "IntentAction \<Rightarrow> Entity list \<Rightarrow> Filter list option \<Rightarrow> Intent" where
  "mkIntent a es fs =
     \<lparr>action = a, Intent.entities = es, filters = fs, timeframe = None, aggregation = None,
      Intent.confidence = None, context = None\<rparr>"

definition mkRouting :: "string \<Rightarrow> jsval \<Rightarrow> RoutingDecision" where
  "mkRouting sv ps =
     \<lparr>RoutingDecision.server = sv, tool = [], params = ps, protocol = ''mcp'',
      confidence = 1, alternates = [], reasoning = []\<rparr>"

definition mkValidation :: "bool \<Rightarrow> ValidationResult" where
  "mkValidation ok =
     \<lparr>isValid = ok, errors = (if ok then [] else [''Operation did not return a valid identifier'']),
      warnings = Some [], suggestions = None, metadata = None\<rparr>"

definition mkInteraction :: "string \<Rightarrow> Intent \<Rightarrow> string \<Rightarrow> real \<Rightarrow> bool \<Rightarrow> LearningInteraction" where
  "mkInteraction q i sv d ok =
     \<lparr>query = q, intent = i, routing = mkRouting sv (JObj []), result = JNull, duration = d,
      validation = mkValidation ok, timestamp = None, feedback = None\<rparr>"

definition mkFeedback :: "bool \<Rightarrow> string option \<Rightarrow> UserFeedback" where
  "mkFeedback h cs =
     \<lparr>helpful = h, rating = None, comment = None, correctServer = cs, correctAction = None\<rparr>"

text \<open>
  The registry of the routing scenario: A with entity \<open>work_order\<close> and operations
  \<open>query\<close>, \<open>create\<close>; B with entity \<open>job\<close> and operation \<open>query\<close>; registered in this
  order at the times \<open>t1\<close> and \<open>t2\<close>.
\<close>

definition registryAB :: "int \<Rightarrow> int \<Rightarrow> ServerRegistry" where
  "registryAB t1 t2 =
     register t2
       (register t1 new_ServerRegistry ''A'' (mkCapability [] [''work_order''] [''query'', ''create'']))
       ''B'' (mkCapability [] [''job''] [''query''])"

definition decisionWorkOrder :: RoutingDecision where
  "decisionWorkOrder =
     \<lparr>RoutingDecision.server = ''A'', tool = ''create_work_order'', params = JObj [],
      protocol = ''mcp'', confidence = 1, alternates = [],
      reasoning = ''Supports entities: work_order; Can perform create operations; Fast response time''\<rparr>"


text \<open>
  Two scorers that stand for the fuzzy-search library in closed examples: one that
  matches nothing, and one that gives the perfect score 0 to a registration one of whose
  indexed fields (name, description, domains, entities, operations) equals the pattern,
  and matches nothing else.
\<close>

definition noFuzzyMatch :: FuseScorer where
  "noFuzzyMatch pat item = None"

definition exactFieldScorer :: FuseScorer where
  "exactFieldScorer pat item =
     (if pat \<in> set ([name item, description (capability item)]
                     @ domains (capability item)
                     @ ServerCapability.entities (capability item)
                     @ operations (capability item))
      then Some 0 else None)"

text \<open>A custom validator that throws.\<close>

definition throwingValidator :: CustomValidator where
  "throwingValidator ps = Inl (Thrown ''validator failed'')"

text \<open>
  A learning system after one interaction routed to A whose result was invalid, and one
  after a valid interaction routed to A and a valid one routed to B.
\<close>

definition learnedOnce :: LearningSystem where
  "learnedOnce =
     recordInteraction 1000 (new_LearningSystem 1000)
       (mkInteraction ''create job'' (mkIntent Create [mkEntity ''job'' []] None) ''A'' 20 False)"

definition learnedTwice :: LearningSystem where
  "learnedTwice =
     recordInteraction 2000
       (recordInteraction 1000 (new_LearningSystem 1000)
          (mkInteraction ''show units'' (mkIntent Query [mkEntity ''unit'' []] None) ''A'' 20 True))
       (mkInteraction ''show jobs'' (mkIntent Query [mkEntity ''job'' []] None) ''B'' 30 True)"


text \<open>What a caller reads first of a routing result: the server, the tool and the alternates' servers.\<close>

definition routed_to :: "js_error + RoutingDecision \<Rightarrow> (string \<times> string \<times> string list) option" where
  "routed_to res =
     (case res of
        Inl err \<Rightarrow> None
      | Inr d \<Rightarrow> Some (RoutingDecision.server d, tool d, map RoutingAlternate.server (alternates d)))"

text \<open>
  The strings \<open>getCacheKey\<close> joins: the action, then one string per entity, then one per
  filter, in the order of the intent.
\<close>

definition key_components :: "Intent \<Rightarrow> string list" where
  "key_components i =
     action_str (action i)
     # map (\<lambda>e. type e @ '':'' @ Entity.value e) (Intent.entities i)
     @ map (\<lambda>f. field f @ '':'' @ operator_str (operator f) @ '':'' @ js_toString (Filter.value f))
         (filters_or_empty i)"

definition bar_free :: "string \<Rightarrow> bool" where
  "bar_free s = (CHR ''|'' \<notin> set s)"

text \<open>
  A family of intents with pairwise different cache keys, all routed alike: \<open>create\<close> of a
  \<open>work_order\<close> whose value is \<open>n\<close> times the letter a. The first \<open>m\<close> of them, each routed
  on the registry of A and B.
\<close>

definition intentN :: "nat \<Rightarrow> Intent" where
  "intentN n = mkIntent Create [mkEntity ''work_order'' (replicate n CHR ''a'')] None"

definition callsUpTo :: "nat \<Rightarrow> (ServerRegistry \<times> Intent) list" where
  "callsUpTo m = map (\<lambda>n. (registryAB 0 0, intentN n)) [0..<m]"

section \<open>Properties of the containers\<close>

lemma jmap_get_set: "jmap_get (jmap_set m k v) k' = (if k' = k then Some v else jmap_get m k')"
  by (induction m) (auto simp: jmap_get_def)

lemma jmap_set_absent: "jmap_get m k = None \<Longrightarrow> jmap_set m k v = m @ [(k, v)]"
  by (induction m) (auto simp: jmap_get_def)

lemma jmap_get_None_iff: "jmap_get m k = None \<longleftrightarrow> k \<notin> fst ` set m"
  by (simp add: jmap_get_def map_of_eq_None_iff)

lemma jmap_has_get: "jmap_has m k \<longleftrightarrow> jmap_get m k \<noteq> None"
  by (simp add: jmap_has_def jmap_get_def)

lemma jmap_delete_first:
  assumes "distinct (map fst (p # m))"
  shows "jmap_delete (p # m) (fst p) = m"
proof -
  have "fst p \<notin> fst ` set m" using assms by simp
  then have "\<forall>q\<in>set m. fst q \<noteq> fst p" by (metis imageI)
  then have "filter (\<lambda>q. fst q \<noteq> fst p) m = m" by simp
  then show ?thesis by (simp add: jmap_delete_def)
qed

section \<open>Properties of the registry\<close>

lemmas registry_defs =
  register_def new_ServerRegistry_def updateIndices_def updateFuzzySearch_def index_add_def
  unregister_def index_remove_def markUnhealthy_def jmap_has_def jmap_get_def jmap_keys_def
  jmap_delete_def jset_add_def jset_delete_def mkCapability_def

lemma registryAB_value:
  "registryAB t1 t2 =
     \<lparr>servers =
        [(''A'', \<lparr>name = ''A'', capability = mkCapability [] [''work_order''] [''query'', ''create''],
                 status = Active, lastHealthCheck = t1,
                 metrics = \<lparr>ServerMetrics.totalRequests = 0, ServerMetrics.avgResponseTime = 0,
                            ServerMetrics.errorRate = 0\<rparr>\<rparr>),
         (''B'', \<lparr>name = ''B'', capability = mkCapability [] [''job''] [''query''],
                 status = Active, lastHealthCheck = t2,
                 metrics = \<lparr>ServerMetrics.totalRequests = 0, ServerMetrics.avgResponseTime = 0,
                            ServerMetrics.errorRate = 0\<rparr>\<rparr>)],
      domainIndex = [],
      entityIndex = [(''work_order'', [''A'']), (''job'', [''B''])],
      operationIndex = [(''query'', [''A'', ''B'']), (''create'', [''A''])],
      fuzzySearch = Some [''A'', ''B'']\<rparr>"
  by (simp add: registryAB_def registry_defs)

text \<open>
  C10. For a server name that is not in the registry, \<open>updateMetrics\<close> returns without an
  error and leaves the whole registry state as it was: the registrations, their metrics,
  the three indices and the fuzzy-search collection.
\<close>

theorem C10_updateMetrics_unknown_server:
  "jmap_get (servers reg) serverName = None \<Longrightarrow>
   updateMetrics reg serverName requestTime success = reg"
  by (simp add: updateMetrics_def)

theorem C10_updateMetrics_unknown_server_witness:
  "jmap_get (servers (registryAB 0 0)) ''ghost'' = None
   \<and> updateMetrics (registryAB 0 0) ''ghost'' 120 False = registryAB 0 0"
proof -
  have h: "jmap_get (servers (registryAB 0 0)) ''ghost'' = None"
    by (simp add: registryAB_value jmap_get_def)
  from C10_updateMetrics_unknown_server [OF h] h show ?thesis by simp
qed

text \<open>
  C3, at the input where the code leaves the claim: a server registered under the name
  \<open>n\<close> with one capability, registered again under the same name with another, and then
  unregistered. \<open>register\<close> adds the name under the new values without removing it from
  the old ones, and \<open>unregister\<close> removes it from the values of the stored (second)
  capability only: the name stays in all three indices under the first capability's
  values, though no server is registered.
\<close>

theorem C3_reregister_then_unregister:
  "unregister
     (register 2 (register 1 new_ServerRegistry ''n'' (mkCapability [''d1''] [''e1''] [''o1'']))
        ''n'' (mkCapability [''d2''] [''e2''] [''o2'']))
     ''n''
   = \<lparr>servers = [],
      domainIndex = [(''d1'', [''n'']), (''d2'', [])],
      entityIndex = [(''e1'', [''n'']), (''e2'', [])],
      operationIndex = [(''o1'', [''n'']), (''o2'', [])],
      fuzzySearch = Some []\<rparr>"
  by (simp add: registry_defs)

text \<open>
  C2, at the input where the code leaves the claim: the only server S declares the
  operation \<open>query\<close> and has been marked unhealthy (status \<open>error\<close>). For the intent
  \<open>query\<close> without entities the operation index yields S, the filter on \<open>active\<close> removes
  it, and the fallback \<open>fuzzyFindServers\<close> returns what the fuzzy search matches for the
  pattern \<open>query\<close> without looking at the status: S, with status \<open>error\<close>.
\<close>

theorem C2_fuzzy_fallback_returns_unhealthy:
  "findServersForIntent exactFieldScorer
     (markUnhealthy (register 0 new_ServerRegistry ''S'' (mkCapability [] [] [''query''])) ''S'')
     (mkIntent Query [] None)
   = Inr [\<lparr>name = ''S'', capability = mkCapability [] [] [''query''], status = Error,
          lastHealthCheck = 0,
          metrics = \<lparr>ServerMetrics.totalRequests = 0, ServerMetrics.avgResponseTime = 0,
                     ServerMetrics.errorRate = 0\<rparr>\<rparr>]"
  by (simp add: registry_defs findServersForIntent_def fuzzyFindServers_def fuse_search_def
      active_registrations_def List.map_filter_def context_domain_def mkIntent_def
      exactFieldScorer_def)

section \<open>Properties of the router\<close>

lemmas route_defs =
  route_def route_try_def new_SemanticRouter_def getCacheKey_def findServersForIntent_def
  active_registrations_def List.map_filter_def context_domain_def rankServersByRelevance_def
  relevance_score_def buildParameters_def selectTool_def operationMap_def
  calculateRoutingConfidence_def generateRoutingReasoning_def mkIntent_def mkEntity_def
  mkCapability_def obj_set_def jmap_get_def jmap_keys_def jmap_delete_def jset_add_def Let_def

lemma route_work_order:
  "route fz (registryAB t1 t2) new_SemanticRouter (mkIntent Create [mkEntity ''work_order'' v] None)
   = (Inr decisionWorkOrder,
      \<lparr>routingCache = [(''create|work_order:'' @ v, decisionWorkOrder)]\<rparr>)"
  by (simp add: registryAB_value route_defs decisionWorkOrder_def)





lemma js_join_Cons: "js_join sep (x # xs) = (if xs = [] then x else x @ sep @ js_join sep xs)"
  by (cases xs) auto

lemma bar_split:
  assumes "bar_free x" and "bar_free y" and "x @ CHR ''|'' # r1 = y @ CHR ''|'' # r2"
  shows "x = y \<and> r1 = r2"
proof -
  have tw: "takeWhile (\<lambda>c. c \<noteq> CHR ''|'') (z @ CHR ''|'' # r) = z" if "bar_free z" for z r
    using that by (induction z) (auto simp: bar_free_def)
  have tx: "takeWhile (\<lambda>c. c \<noteq> CHR ''|'') (x @ CHR ''|'' # r1) = x"
    using assms(1) by (rule tw)
  have ty: "takeWhile (\<lambda>c. c \<noteq> CHR ''|'') (y @ CHR ''|'' # r2) = y"
    using assms(2) by (rule tw)
  from tx ty assms(3) have "x = y" by simp
  with assms(3) show ?thesis by simp
qed

lemma join_bar_inj:
  assumes "list_all bar_free xs" and "list_all bar_free ys" and "xs \<noteq> []" and "ys \<noteq> []"
    and "js_join ''|'' xs = js_join ''|'' ys"
  shows "xs = ys"
  using assms
proof (induction xs arbitrary: ys)
  case Nil
  then show ?case by simp
next
  case (Cons x xs)
  from Cons.prems(4) obtain y ys' where ys: "ys = y # ys'" by (cases ys) auto
  have bx: "bar_free x" and bfy: "bar_free y" using Cons.prems(1,2) ys by simp_all
  show ?case
  proof (cases "xs = []")
    case True
    show ?thesis
    proof (cases "ys' = []")
      case True
      with \<open>xs = []\<close> Cons.prems(5) ys show ?thesis by simp
    next
      case False
      with \<open>xs = []\<close> Cons.prems(5) ys have "x = y @ CHR ''|'' # js_join ''|'' ys'"
        by (simp add: js_join_Cons)
      with bx show ?thesis by (simp add: bar_free_def)
    qed
  next
    case False
    show ?thesis
    proof (cases "ys' = []")
      case True
      with \<open>xs \<noteq> []\<close> Cons.prems(5) ys have "y = x @ CHR ''|'' # js_join ''|'' xs"
        by (simp add: js_join_Cons)
      with bfy show ?thesis by (simp add: bar_free_def)
    next
      case ne: False
      from False ne Cons.prems(5) ys
      have "x @ CHR ''|'' # js_join ''|'' xs = y @ CHR ''|'' # js_join ''|'' ys'"
        by (simp add: js_join_Cons)
      from bar_split [OF bx bfy this] have xy: "x = y" and rest: "js_join ''|'' xs = js_join ''|'' ys'"
        by simp_all
      have "xs = ys'"
        using Cons.IH [OF _ _ False ne rest] Cons.prems(1,2) ys by simp
      with xy ys show ?thesis by simp
    qed
  qed
qed

lemma getCacheKey_components: "getCacheKey i = js_join ''|'' (key_components i)"
  by (simp add: getCacheKey_def key_components_def filters_or_empty_def)

text \<open>
  C6 as stated fails: \<open>getCacheKey\<close> joins the entity pairs and the filter triples in the
  order of the intent and sorts nothing. Two intents with the same action and the same
  two entities in opposite orders get different keys, and so do two intents with the same
  two filters in opposite orders.
\<close>

theorem C6_reordered_entities_change_key:
  "getCacheKey (mkIntent Query [mkEntity ''unit'' ''12'', mkEntity ''tenant'' ''smith''] None)
     = ''query|unit:12|tenant:smith''
   \<and> getCacheKey (mkIntent Query [mkEntity ''tenant'' ''smith'', mkEntity ''unit'' ''12''] None)
     = ''query|tenant:smith|unit:12''
   \<and> getCacheKey (mkIntent Query [mkEntity ''unit'' ''12'', mkEntity ''tenant'' ''smith''] None)
     \<noteq> getCacheKey (mkIntent Query [mkEntity ''tenant'' ''smith'', mkEntity ''unit'' ''12''] None)
   \<and> getCacheKey
       (mkIntent Query []
          (Some [\<lparr>field = ''status'', operator = Equals, Filter.value = JStr ''open''\<rparr>,
                 \<lparr>field = ''rent'', operator = GreaterThan, Filter.value = JNum 900\<rparr>]))
     = ''query|status:equals:open|rent:greater_than:900''
   \<and> getCacheKey
       (mkIntent Query []
          (Some [\<lparr>field = ''rent'', operator = GreaterThan, Filter.value = JNum 900\<rparr>,
                 \<lparr>field = ''status'', operator = Equals, Filter.value = JStr ''open''\<rparr>]))
     = ''query|rent:greater_than:900|status:equals:open''"
  by (simp add: getCacheKey_def mkIntent_def mkEntity_def show_int_def)

text \<open>
  C6, amended. The cache key joins with \<open>|\<close> the action, the entities' \<open>type:value\<close>
  strings and the filters' \<open>field:operator:value\<close> strings, in the order of the intent and
  unsorted. Two intents with the same action, the same sequence of entity (type, value)
  pairs and the same sequence of filter (field, operator, value-as-string) triples get
  the same key, whatever their other fields are. Conversely, when none of the joined
  strings of two intents contains \<open>|\<close>, they get the same key only if they have the same
  action and the same sequence of entity and filter strings: entities or filters in
  another order give another key.
\<close>

theorem C6_key_is_ordered_components:
  "(action i1 = action i2
    \<and> map (\<lambda>e. (type e, Entity.value e)) (Intent.entities i1)
        = map (\<lambda>e. (type e, Entity.value e)) (Intent.entities i2)
    \<and> map (\<lambda>f. (field f, operator f, js_toString (Filter.value f))) (filters_or_empty i1)
        = map (\<lambda>f. (field f, operator f, js_toString (Filter.value f))) (filters_or_empty i2)
    \<longrightarrow> getCacheKey i1 = getCacheKey i2)
   \<and> (list_all bar_free (key_components i1) \<and> list_all bar_free (key_components i2)
      \<longrightarrow> (getCacheKey i1 = getCacheKey i2) = (key_components i1 = key_components i2))"
proof -
  have e: "map (\<lambda>e. type e @ '':'' @ Entity.value e) (Intent.entities i)
           = map (\<lambda>p. fst p @ '':'' @ snd p)
               (map (\<lambda>e. (type e, Entity.value e)) (Intent.entities i))" for i
    by simp
  have f: "map (\<lambda>f. field f @ '':'' @ operator_str (operator f) @ '':'' @ js_toString (Filter.value f))
             (filters_or_empty i)
           = map (\<lambda>p. fst p @ '':'' @ operator_str (fst (snd p)) @ '':'' @ snd (snd p))
               (map (\<lambda>f. (field f, operator f, js_toString (Filter.value f))) (filters_or_empty i))"
    for i
    by simp
  have same: "getCacheKey i1 = getCacheKey i2"
    if "action i1 = action i2"
      and "map (\<lambda>e. (type e, Entity.value e)) (Intent.entities i1)
           = map (\<lambda>e. (type e, Entity.value e)) (Intent.entities i2)"
      and "map (\<lambda>f. (field f, operator f, js_toString (Filter.value f))) (filters_or_empty i1)
           = map (\<lambda>f. (field f, operator f, js_toString (Filter.value f))) (filters_or_empty i2)"
    unfolding getCacheKey_components key_components_def e f using that by simp
  have conv: "(getCacheKey i1 = getCacheKey i2) = (key_components i1 = key_components i2)"
    if free: "list_all bar_free (key_components i1)" "list_all bar_free (key_components i2)"
  proof
    assume "getCacheKey i1 = getCacheKey i2"
    then have "js_join ''|'' (key_components i1) = js_join ''|'' (key_components i2)"
      by (simp add: getCacheKey_components)
    moreover have "key_components i1 \<noteq> []" and "key_components i2 \<noteq> []"
      by (simp_all add: key_components_def)
    ultimately show "key_components i1 = key_components i2"
      using join_bar_inj free by blast
  next
    assume "key_components i1 = key_components i2"
    then show "getCacheKey i1 = getCacheKey i2" by (simp add: getCacheKey_components)
  qed
  from same conv show ?thesis by blast
qed

theorem C6_key_is_ordered_components_witness:
  "getCacheKey
     (mkIntent Query [mkEntity ''unit'' ''12'']
        (Some [\<lparr>field = ''status'', operator = Equals, Filter.value = JStr ''open''\<rparr>]))
   = getCacheKey
       \<lparr>action = Query,
        Intent.entities = [\<lparr>type = ''unit'', Entity.value = ''12'', role = Some FilterRole,
                            Entity.confidence = Some 0.8\<rparr>],
        filters = Some [\<lparr>field = ''status'', operator = Equals, Filter.value = JStr ''open''\<rparr>],
        timeframe = Some \<lparr>start = None, end = None, relative = Some ''today''\<rparr>,
        aggregation = Some AggCount, Intent.confidence = Some 0.9,
        context = Some \<lparr>domain = Some ''property''\<rparr>\<rparr>
   \<and> getCacheKey
       (mkIntent Query []
          (Some [\<lparr>field = ''status'', operator = Equals, Filter.value = JStr ''open''\<rparr>,
                 \<lparr>field = ''rent'', operator = GreaterThan, Filter.value = JNum 900\<rparr>]))
     \<noteq> getCacheKey
         (mkIntent Query []
            (Some [\<lparr>field = ''rent'', operator = GreaterThan, Filter.value = JNum 900\<rparr>,
                   \<lparr>field = ''status'', operator = Equals, Filter.value = JStr ''open''\<rparr>]))"
proof -
  define a1 where
    "a1 = mkIntent Query [mkEntity ''unit'' ''12'']
            (Some [\<lparr>field = ''status'', operator = Equals, Filter.value = JStr ''open''\<rparr>])"
  define a2 where
    "a2 = \<lparr>action = Query,
           Intent.entities = [\<lparr>type = ''unit'', Entity.value = ''12'', role = Some FilterRole,
                               Entity.confidence = Some 0.8\<rparr>],
           filters = Some [\<lparr>field = ''status'', operator = Equals, Filter.value = JStr ''open''\<rparr>],
           timeframe = Some \<lparr>start = None, end = None, relative = Some ''today''\<rparr>,
           aggregation = Some AggCount, Intent.confidence = Some 0.9,
           context = Some \<lparr>domain = Some ''property''\<rparr>\<rparr>"
  define b1 where
    "b1 = mkIntent Query []
            (Some [\<lparr>field = ''status'', operator = Equals, Filter.value = JStr ''open''\<rparr>,
                   \<lparr>field = ''rent'', operator = GreaterThan, Filter.value = JNum 900\<rparr>])"
  define b2 where
    "b2 = mkIntent Query []
            (Some [\<lparr>field = ''rent'', operator = GreaterThan, Filter.value = JNum 900\<rparr>,
                   \<lparr>field = ''status'', operator = Equals, Filter.value = JStr ''open''\<rparr>])"
  have ha: "action a1 = action a2
            \<and> map (\<lambda>e. (type e, Entity.value e)) (Intent.entities a1)
                = map (\<lambda>e. (type e, Entity.value e)) (Intent.entities a2)
            \<and> map (\<lambda>f. (field f, operator f, js_toString (Filter.value f))) (filters_or_empty a1)
                = map (\<lambda>f. (field f, operator f, js_toString (Filter.value f))) (filters_or_empty a2)"
    by (simp add: a1_def a2_def mkIntent_def mkEntity_def filters_or_empty_def)
  have c1: "key_components b1 = [''query'', ''status:equals:open'', ''rent:greater_than:900'']"
    by (simp add: b1_def key_components_def mkIntent_def filters_or_empty_def show_int_def)
  have c2: "key_components b2 = [''query'', ''rent:greater_than:900'', ''status:equals:open'']"
    by (simp add: b2_def key_components_def mkIntent_def filters_or_empty_def show_int_def)
  have hb: "list_all bar_free (key_components b1) \<and> list_all bar_free (key_components b2)"
    unfolding c1 c2 by (simp add: bar_free_def)
  have ne: "key_components b1 \<noteq> key_components b2"
    unfolding c1 c2 by simp
  have "getCacheKey a1 = getCacheKey a2"
    using C6_key_is_ordered_components [of a1 a2] ha by blast
  moreover have "getCacheKey b1 \<noteq> getCacheKey b2"
    using C6_key_is_ordered_components [of b1 b2] hb ne by blast
  ultimately show ?thesis
    unfolding a1_def a2_def b1_def b2_def by blast
qed

lemma route_hit:
  "jmap_get (routingCache r) (getCacheKey i) = Some d \<Longrightarrow> route fz reg r i = (Inr d, r)"
  by (simp add: route_def route_try_def)

lemma route_miss_cases:
  assumes "jmap_get (routingCache r) (getCacheKey i) = None"
  shows "(\<exists>e. route fz reg r i = (Inl e, r))
       \<or> (\<exists>d. route fz reg r i
                = (Inr d, r\<lparr>routingCache := cache_insert (routingCache r) (getCacheKey i) d\<rparr>))"
  using assms
  by (auto simp: route_def route_try_def cache_insert_def Let_def split: sum.splits list.splits)

lemma cache_insert_fifo:
  assumes "distinct (map fst c)" and "jmap_get c k = None" and "length c \<le> 1000"
  shows "cache_insert c k d = (if length c < 1000 then c @ [(k, d)] else tl c @ [(k, d)])"
proof (cases "length c < 1000")
  case True
  then show ?thesis using assms by (simp add: cache_insert_def jmap_set_absent)
next
  case False
  with assms have len: "length c = 1000" by simp
  then obtain p m where c: "c = p # m" by (cases c) auto
  have "distinct (map fst ((p # m) @ [(k, d)]))"
    using assms(1,2) unfolding c by (auto simp: jmap_get_None_iff)
  then have "jmap_delete (p # (m @ [(k, d)])) (fst p) = m @ [(k, d)]"
    using jmap_delete_first [of p "m @ [(k, d)]"] by simp
  moreover have "jmap_set c k d = p # (m @ [(k, d)])"
    using jmap_set_absent [OF assms(2), of d] by (simp add: c)
  ultimately show ?thesis
    using len by (simp add: cache_insert_def c jmap_keys_def del: jmap_set.simps)
qed

lemma cache_insert_ok:
  assumes "cache_ok c" and "jmap_get c k = None"
  shows "cache_ok (cache_insert c k d)"
proof -
  have eq: "cache_insert c k d = (if length c < 1000 then c @ [(k, d)] else tl c @ [(k, d)])"
    using assms by (intro cache_insert_fifo) (auto simp: cache_ok_def)
  have k: "k \<notin> fst ` set c" using assms(2) by (simp add: jmap_get_None_iff)
  have d: "distinct (map fst c)" and l: "length c \<le> 1000"
    using assms(1) by (auto simp: cache_ok_def)
  show ?thesis
  proof (cases "length c < 1000")
    case True
    then show ?thesis using eq k d by (auto simp: cache_ok_def)
  next
    case False
    then obtain p m where c: "c = p # m" by (cases c) auto
    show ?thesis using eq k d l False unfolding c by (auto simp: cache_ok_def)
  qed
qed

lemma route_cache_ok:
  assumes "cache_ok (routingCache r)"
  shows "cache_ok (routingCache (snd (route fz reg r i)))"
proof (cases "jmap_get (routingCache r) (getCacheKey i)")
  case None
  from route_miss_cases [OF None, of fz reg] show ?thesis
    using assms cache_insert_ok [OF assms None] by auto
next
  case (Some d)
  then show ?thesis using assms by (simp add: route_hit)
qed

lemma route_calls_cache_ok:
  "cache_ok (routingCache r) \<Longrightarrow> cache_ok (routingCache (route_calls fz r calls))"
  by (induction calls arbitrary: r) (auto intro: route_cache_ok)

lemma rank_length: "length (rankServersByRelevance svs i) = length svs"
  by (simp add: rankServersByRelevance_def)

lemma route_miss_eq:
  assumes "jmap_get (routingCache r) (getCacheKey i) = None"
  shows "route fz reg r i
         = (case fst (route fz reg new_SemanticRouter i) of
              Inl e \<Rightarrow> (Inl e, r)
            | Inr d \<Rightarrow> (Inr d, r\<lparr>routingCache := cache_insert (routingCache r) (getCacheKey i) d\<rparr>))"
  using assms
  by (auto simp: route_def route_try_def cache_insert_def new_SemanticRouter_def jmap_get_def
        Let_def
      split: sum.splits list.splits)

lemma route_miss_succeeds:
  assumes "jmap_get (routingCache r) (getCacheKey i) = None"
    and "findServersForIntent fz reg i = Inr (c # cs)"
    and "buildParameters i = Inr ps"
  shows "\<not> isl (fst (route fz reg r i))"
proof -
  have "length (rankServersByRelevance (c # cs) i) = Suc (length cs)"
    by (simp add: rank_length)
  then obtain b bs where "rankServersByRelevance (c # cs) i = b # bs"
    by (cases "rankServersByRelevance (c # cs) i") auto
  then show ?thesis
    using assms by (simp add: route_def route_try_def Let_def)
qed

text \<open>
  C7. Let \<open>r\<close> be the router after any sequence of \<open>route\<close> calls from the empty cache,
  each call with its own intent and the registry as it is at that call. Then the cache
  holds at most 1000 entries. A call whose cache key is in the cache returns the stored
  decision and leaves the router unchanged, whatever the registry is: the registry is not
  consulted and nothing is re-ranked, and the order of the cache does not depend on hits.
  A call that fails leaves the router unchanged. A call whose key is not in the cache
  succeeds whenever the registry finds a candidate and the parameters can be built, also
  when the cache is full; and a call that misses and succeeds appends its key and
  decision at the end of the cache and, when the cache was full, drops the first entry,
  which is the one inserted longest ago.
\<close>

theorem C7_cache_hit_and_fifo_eviction:
  assumes "r = route_calls fz new_SemanticRouter calls"
  shows "length (routingCache r) \<le> 1000
       \<and> (\<forall>reg i d. jmap_get (routingCache r) (getCacheKey i) = Some d
             \<longrightarrow> route fz reg r i = (Inr d, r))
       \<and> (\<forall>reg i e r'. route fz reg r i = (Inl e, r') \<longrightarrow> r' = r)
       \<and> (\<forall>reg i c cs ps. jmap_get (routingCache r) (getCacheKey i) = None
                        \<and> findServersForIntent fz reg i = Inr (c # cs)
                        \<and> buildParameters i = Inr ps
             \<longrightarrow> \<not> isl (fst (route fz reg r i)))
       \<and> (\<forall>reg i d r'. jmap_get (routingCache r) (getCacheKey i) = None
                      \<and> route fz reg r i = (Inr d, r')
             \<longrightarrow> routingCache r' =
                   (if length (routingCache r) < 1000
                    then routingCache r @ [(getCacheKey i, d)]
                    else tl (routingCache r) @ [(getCacheKey i, d)]))"
proof -
  have ok: "cache_ok (routingCache r)"
    unfolding assms by (rule route_calls_cache_ok) (simp add: cache_ok_def new_SemanticRouter_def)
  have a: "length (routingCache r) \<le> 1000" using ok by (simp add: cache_ok_def)
  have b: "route fz reg r i = (Inr d, r)"
    if "jmap_get (routingCache r) (getCacheKey i) = Some d" for reg i d
    using that by (rule route_hit)
  have c: "r' = r" if failed: "route fz reg r i = (Inl e, r')" for reg i e r'
  proof (cases "jmap_get (routingCache r) (getCacheKey i)")
    case None
    from route_miss_cases [OF None, of fz reg] failed show ?thesis by auto
  next
    case (Some d)
    with failed show ?thesis by (simp add: route_hit)
  qed
  have s: "\<not> isl (fst (route fz reg r i))"
    if "jmap_get (routingCache r) (getCacheKey i) = None"
      and "findServersForIntent fz reg i = Inr (c # cs)"
      and "buildParameters i = Inr ps"
    for reg i c cs ps
    using that by (rule route_miss_succeeds)
  have d: "routingCache r' =
             (if length (routingCache r) < 1000
              then routingCache r @ [(getCacheKey i, d)]
              else tl (routingCache r) @ [(getCacheKey i, d)])"
    if miss: "jmap_get (routingCache r) (getCacheKey i) = None"
      and succ: "route fz reg r i = (Inr d, r')"
    for reg i d r'
  proof -
    from route_miss_cases [OF miss, of fz reg] succ
    have "r' = r\<lparr>routingCache := cache_insert (routingCache r) (getCacheKey i) d\<rparr>" by auto
    then show ?thesis
      using cache_insert_fifo [OF _ miss, of d] ok by (simp add: cache_ok_def)
  qed
  from a b c s d show ?thesis by blast
qed

lemma route_calls_append:
  "route_calls fz r (xs @ ys) = route_calls fz (route_calls fz r xs) ys"
  by (induction xs arbitrary: r) auto

lemma key_intentN: "getCacheKey (intentN n) = ''create|work_order:'' @ replicate n CHR ''a''"
  by (simp add: intentN_def getCacheKey_def mkIntent_def mkEntity_def)

lemma key_intentN_inj: "getCacheKey (intentN n) = getCacheKey (intentN m) \<longleftrightarrow> n = m"
proof
  assume "getCacheKey (intentN n) = getCacheKey (intentN m)"
  then have "replicate n CHR ''a'' = replicate m CHR ''a''" by (simp add: key_intentN)
  then have "length (replicate n CHR ''a'') = length (replicate m CHR ''a'')" by simp
  then show "n = m" by simp
qed simp

lemma route_intentN:
  assumes "jmap_get (routingCache r) (getCacheKey (intentN n)) = None"
  shows "route fz (registryAB t1 t2) r (intentN n)
         = (Inr decisionWorkOrder,
            r\<lparr>routingCache :=
                cache_insert (routingCache r) (getCacheKey (intentN n)) decisionWorkOrder\<rparr>)"
  using route_miss_eq [OF assms, of fz "registryAB t1 t2"]
  by (simp add: intentN_def route_work_order)

lemma absent_above:
  "m \<le> n \<Longrightarrow>
   jmap_get (map (\<lambda>j. (getCacheKey (intentN j), decisionWorkOrder)) [k..<m])
     (getCacheKey (intentN n)) = None"
  by (auto simp: jmap_get_None_iff key_intentN_inj)

lemma cache_after_calls:
  "m \<le> 1000 \<Longrightarrow>
   routingCache (route_calls fz new_SemanticRouter (callsUpTo m))
   = map (\<lambda>j. (getCacheKey (intentN j), decisionWorkOrder)) [0..<m]"
proof (induction m)
  case 0
  then show ?case by (simp add: callsUpTo_def new_SemanticRouter_def)
next
  case (Suc m)
  define r where "r = route_calls fz new_SemanticRouter (callsUpTo m)"
  have cache: "routingCache r = map (\<lambda>j. (getCacheKey (intentN j), decisionWorkOrder)) [0..<m]"
    using Suc by (simp add: r_def)
  have miss: "jmap_get (routingCache r) (getCacheKey (intentN m)) = None"
    unfolding cache by (rule absent_above) simp
  have ok: "cache_ok (routingCache r)"
    unfolding r_def by (rule route_calls_cache_ok) (simp add: cache_ok_def new_SemanticRouter_def)
  have len: "length (routingCache r) < 1000" using Suc.prems by (simp add: cache)
  have ins: "cache_insert (routingCache r) (getCacheKey (intentN m)) decisionWorkOrder
             = routingCache r @ [(getCacheKey (intentN m), decisionWorkOrder)]"
    using cache_insert_fifo [OF _ miss, of decisionWorkOrder] ok len by (simp add: cache_ok_def)
  have "route_calls fz new_SemanticRouter (callsUpTo (Suc m))
        = snd (route fz (registryAB 0 0) r (intentN m))"
    by (simp add: callsUpTo_def route_calls_append r_def)
  then have "routingCache (route_calls fz new_SemanticRouter (callsUpTo (Suc m)))
             = cache_insert (routingCache r) (getCacheKey (intentN m)) decisionWorkOrder"
    by (simp add: route_intentN [OF miss])
  also have "\<dots> = routingCache r @ [(getCacheKey (intentN m), decisionWorkOrder)]"
    by (rule ins)
  finally show ?case
    by (simp add: cache)
qed

theorem C7_cache_hit_and_fifo_eviction_witness:
  "length (routingCache (route_calls noFuzzyMatch new_SemanticRouter (callsUpTo 1000))) = 1000
   \<and> map fst (routingCache (route_calls noFuzzyMatch new_SemanticRouter (callsUpTo 1000)))
     = map (\<lambda>j. ''create|work_order:'' @ replicate j CHR ''a'') [0..<1000]
   \<and> routed_to (fst (route noFuzzyMatch new_ServerRegistry
                       (route_calls noFuzzyMatch new_SemanticRouter (callsUpTo 1000)) (intentN 0)))
     = Some (''A'', ''create_work_order'', [])
   \<and> snd (route noFuzzyMatch new_ServerRegistry
            (route_calls noFuzzyMatch new_SemanticRouter (callsUpTo 1000)) (intentN 0))
     = route_calls noFuzzyMatch new_SemanticRouter (callsUpTo 1000)
   \<and> routed_to (fst (route noFuzzyMatch (registryAB 0 0)
                       (route_calls noFuzzyMatch new_SemanticRouter (callsUpTo 1000))
                       (intentN 1000)))
     = Some (''A'', ''create_work_order'', [])
   \<and> map fst (routingCache (snd (route noFuzzyMatch (registryAB 0 0)
                (route_calls noFuzzyMatch new_SemanticRouter (callsUpTo 1000)) (intentN 1000))))
     = map (\<lambda>j. ''create|work_order:'' @ replicate j CHR ''a'') [1..<1001]"
proof -
  define R where "R = route_calls noFuzzyMatch new_SemanticRouter (callsUpTo 1000)"
  define D where "D = decisionWorkOrder"
  have cache: "routingCache R = map (\<lambda>j. (getCacheKey (intentN j), D)) [0..<1000]"
    unfolding R_def D_def by (rule cache_after_calls) simp
  have len: "length (routingCache R) = 1000" by (simp add: cache)
  have keys: "map fst (routingCache R)
              = map (\<lambda>j. ''create|work_order:'' @ replicate j CHR ''a'') [0..<1000]"
    by (simp add: cache key_intentN)
  have "(getCacheKey (intentN 0), D) \<in> (\<lambda>j. (getCacheKey (intentN j), D)) ` {0..<1000}"
    by (rule image_eqI [where x = 0]) simp_all
  then have "(getCacheKey (intentN 0), D) \<in> set (routingCache R)"
    by (simp add: cache)
  have "distinct (map fst (routingCache R))"
    unfolding cache by (simp add: distinct_map inj_on_def key_intentN_inj comp_def)
  with \<open>(getCacheKey (intentN 0), D) \<in> set (routingCache R)\<close> have hit: "jmap_get (routingCache R) (getCacheKey (intentN 0)) = Some D"
    by (simp add: jmap_get_def)
  have miss: "jmap_get (routingCache R) (getCacheKey (intentN 1000)) = None"
    unfolding cache D_def by (rule absent_above) simp
  have succ: "route noFuzzyMatch (registryAB 0 0) R (intentN 1000)
              = (Inr D, snd (route noFuzzyMatch (registryAB 0 0) R (intentN 1000)))"
    by (simp add: route_intentN [OF miss] D_def)
  have cand: "findServersForIntent noFuzzyMatch (registryAB 0 0) (intentN 1000)
              = Inr [the (jmap_get (servers (registryAB 0 0)) ''A'')]"
    by (simp add: registryAB_value intentN_def findServersForIntent_def active_registrations_def
          List.map_filter_def context_domain_def mkIntent_def mkEntity_def jmap_get_def
          jset_add_def)
  have built: "buildParameters (intentN 1000) = Inr (JObj [])"
    by (simp add: intentN_def buildParameters_def mkIntent_def mkEntity_def)
  note c7 = C7_cache_hit_and_fifo_eviction [OF R_def]
  have B: "route noFuzzyMatch new_ServerRegistry R (intentN 0) = (Inr D, R)"
    using c7 hit by blast
  have S: "\<not> isl (fst (route noFuzzyMatch (registryAB 0 0) R (intentN 1000)))"
    using c7 miss cand built by blast
  have E: "routingCache (snd (route noFuzzyMatch (registryAB 0 0) R (intentN 1000)))
           = (if length (routingCache R) < 1000
              then routingCache R @ [(getCacheKey (intentN 1000), D)]
              else tl (routingCache R) @ [(getCacheKey (intentN 1000), D)])"
    using c7 miss succ by blast
  have tl_upt: "tl (map (\<lambda>j. (getCacheKey (intentN j), D)) [0..<1000])
                = map (\<lambda>j. (getCacheKey (intentN j), D)) [1..<1000]"
    by (simp add: upt_conv_Cons [of 0 1000] del: upt_Suc)
  have E': "map fst (routingCache (snd (route noFuzzyMatch (registryAB 0 0) R (intentN 1000))))
            = map (\<lambda>j. ''create|work_order:'' @ replicate j CHR ''a'') [1..<1001]"
    unfolding E len cache tl_upt
    by (simp add: key_intentN upt_Suc_append [of 1 1000, simplified] del: upt_Suc)
  have rt: "routed_to (Inr D) = Some (''A'', ''create_work_order'', [])"
    by (simp add: routed_to_def D_def decisionWorkOrder_def)
  have F: "fst (route noFuzzyMatch (registryAB 0 0) R (intentN 1000)) = Inr D"
    using succ by (metis fst_conv)
  have B1: "fst (route noFuzzyMatch new_ServerRegistry R (intentN 0)) = Inr D"
    and B2: "snd (route noFuzzyMatch new_ServerRegistry R (intentN 0)) = R"
    using B by simp_all
  from S have "\<not> isl (fst (route noFuzzyMatch (registryAB 0 0) R (intentN 1000)))" .
  with len keys B1 B2 F E' rt show ?thesis
    unfolding R_def [symmetric] by simp
qed

section \<open>Properties of the validation engine\<close>

lemmas validation_defs =
  validateOperation_def validateParameters_def registerValidator_def new_ValidationEngine_def
  initialize_engine_def loadDefaultRules_def loadPropertyManagementRules_def addRule_def
  getRules_def cond_require_data_def cond_require_id_def cond_either_def
  cond_wo_priority_valid_def validPriorities_def json_quote_def json_escape_def
  mkRouting_def mkIntent_def mkEntity_def throwingValidator_def jmap_get_def jmap_has_def Let_def

lemma applyBusinessRules_total:
  "list_all (\<lambda>r. \<not> isl (condition r ps)) rs \<Longrightarrow> \<exists>res. applyBusinessRules rs ps acc = Inr res"
  by (induction rs arbitrary: acc) (auto split: sum.splits)

text \<open>
  C4 as stated fails: \<open>validateOperation\<close> awaits the custom validator outside any
  \<open>try\<close>. With a validator registered for server A that throws, \<open>validateOperation\<close> for a
  decision on A does not return a result but raises the validator's exception, while the
  same call without a validator returns a valid result.
\<close>

theorem C4_throwing_validator_aborts:
  "validateOperation 0 (registerValidator new_ValidationEngine ''A'' throwingValidator)
     (mkRouting ''A'' (JObj [])) (mkIntent Query [] None) None
   = Inl (Thrown ''validator failed'')
   \<and> validateOperation 0 new_ValidationEngine
       (mkRouting ''A'' (JObj [])) (mkIntent Query [] None) None
     = Inr \<lparr>isValid = True, errors = [], warnings = Some [], suggestions = Some [],
            metadata = Some (OperationMetadata 0 0 None)\<rparr>"
  by (simp add: validation_defs)

text \<open>
  C4, amended. When the custom validator registered for the decision's server throws on
  the decision's parameters, \<open>validateOperation\<close> returns no \<open>ValidationResult\<close>: it raises.
  When no condition of the server's business rules throws before, the exception raised
  is the validator's own.
\<close>

theorem C4_validator_exception_propagates:
  assumes "jmap_get (customValidators eng) (RoutingDecision.server rd) = Some cv"
    and "cv (params rd) = Inl e"
  shows "isl (validateOperation now eng rd i ctx)
       \<and> (list_all (\<lambda>r. \<not> isl (condition r (params rd))) (businessRulesOf eng rd i)
            \<longrightarrow> validateOperation now eng rd i ctx = Inl e)"
proof -
  have a: "isl (validateOperation now eng rd i ctx)"
    using assms by (auto simp: validateOperation_def Let_def split: sum.splits prod.splits)
  have b: "validateOperation now eng rd i ctx = Inl e"
    if nothrow: "list_all (\<lambda>r. \<not> isl (condition r (params rd))) (businessRulesOf eng rd i)"
  proof -
    obtain pe pw where pv: "validateParameters (params rd) i = (pe, pw)"
      by (cases "validateParameters (params rd) i")
    define errors2 where
      "errors2 = (case ctx of
                    None \<Rightarrow> pe
                  | Some c \<Rightarrow>
                      (case currentUser c of
                         None \<Rightarrow> pe
                       | Some user \<Rightarrow>
                           pe @ validatePermissions user (action i) (RoutingDecision.server rd)))"
    obtain res where res:
      "applyBusinessRules (businessRulesOf eng rd i) (params rd) (errors2, pw) = Inr res"
      using applyBusinessRules_total [OF nothrow] by blast
    show ?thesis
      using assms res
      by (cases res)
         (simp add: validateOperation_def Let_def businessRulesOf_def pv errors2_def)
  qed
  from a b show ?thesis by simp
qed

theorem C4_validator_exception_propagates_witness:
  "jmap_get (customValidators (registerValidator new_ValidationEngine ''A'' throwingValidator))
     (RoutingDecision.server (mkRouting ''A'' (JObj [])))
   = Some throwingValidator
   \<and> throwingValidator (params (mkRouting ''A'' (JObj []))) = Inl (Thrown ''validator failed'')
   \<and> validateOperation 0 (registerValidator new_ValidationEngine ''A'' throwingValidator)
       (mkRouting ''A'' (JObj [])) (mkIntent Query [] None) None
     = Inl (Thrown ''validator failed'')"
proof -
  define eng where "eng = registerValidator new_ValidationEngine ''A'' throwingValidator"
  define rd where "rd = mkRouting ''A'' (JObj [])"
  have h1: "jmap_get (customValidators eng) (RoutingDecision.server rd) = Some throwingValidator"
    by (simp add: eng_def rd_def registerValidator_def new_ValidationEngine_def mkRouting_def
          jmap_get_def)
  have h2: "throwingValidator (params rd) = Inl (Thrown ''validator failed'')"
    by (simp add: throwingValidator_def)
  have h3: "list_all (\<lambda>r. \<not> isl (condition r (params rd)))
              (businessRulesOf eng rd (mkIntent Query [] None))"
    by (simp add: businessRulesOf_def eng_def rd_def registerValidator_def
          new_ValidationEngine_def jmap_get_def)
  from C4_validator_exception_propagates [OF h1 h2, of 0 "mkIntent Query [] None" None] h3
  have "validateOperation 0 eng rd (mkIntent Query [] None) None = Inl (Thrown ''validator failed'')"
    by blast
  with h1 h2 show ?thesis
    unfolding eng_def rd_def by blast
qed

text \<open>
  C5, at the input where the code leaves the claim: the engine with its built-in rules,
  a decision for server A and the action \<open>create\<close> whose parameters hold a work order with
  the priority \<open>bogus\<close>. The rule \<open>wo-priority-valid\<close>, registered under the wildcard key
  \<open>*:create\<close> with severity \<open>error\<close>, fails on these parameters, and \<open>getRules\<close> lists it
  for A. \<open>validateOperation\<close> reads the rules under \<open>A:create\<close> only, applies none, and
  returns a valid result without errors.
\<close>

theorem C5_wildcard_rule_not_applied:
  "validateOperation 0 (initialize_engine new_ValidationEngine)
     (mkRouting ''A'' (JObj [(''work_order'', JObj [(''priority'', JStr ''bogus'')])]))
     (mkIntent Create [] None) None
   = Inr \<lparr>isValid = True, errors = [], warnings = Some [], suggestions = Some [],
          metadata = Some (OperationMetadata 0 0 None)\<rparr>
   \<and> map (\<lambda>r. (ruleId r, severity r,
               condition r (JObj [(''work_order'', JObj [(''priority'', JStr ''bogus'')])])))
       (getRules (initialize_engine new_ValidationEngine) ''A'' ''create'')
     = [(''require-data'', SevError, Inr True), (''wo-priority-valid'', SevError, Inr False)]"
  by (simp add: validation_defs)

section \<open>Properties of the learning system\<close>

lemmas feedback_defs =
  recordFeedback_def interactionId_def show_int_def mkInteraction_def mkFeedback_def
  adjustServerPreference_def getServerPerformance_def jmap_get_def mkRouting_def

lemma learnedOnce_value:
  "learnedOnce =
     \<lparr>interactions =
        [(mkInteraction ''create job'' (mkIntent Create [mkEntity ''job'' []] None) ''A'' 20 False)
           \<lparr>timestamp := Some 1000\<rparr>],
      LearningSystem.patterns =
        [(''create:job'',
          \<lparr>pattern = ''create job'', frequency = 1, avgDuration = 20, successRate = 0,
           lastUsed = 1000\<rparr>)],
      serverPerformance =
        [(''A'',
          \<lparr>ServerPerformance.totalRequests = 1, successfulRequests = 0,
           ServerPerformance.avgResponseTime = 20, ServerPerformance.errorRate = 1,
           ServerPerformance.patterns =
             [(''create:job'', \<lparr>count = 1, patternSuccessRate = 0\<rparr>)]\<rparr>)],
      maxHistorySize = 1000\<rparr>"
  by code_simp

lemma learnedTwice_value:
  "learnedTwice =
     \<lparr>interactions =
        [(mkInteraction ''show units'' (mkIntent Query [mkEntity ''unit'' []] None) ''A'' 20 True)
           \<lparr>timestamp := Some 1000\<rparr>,
         (mkInteraction ''show jobs'' (mkIntent Query [mkEntity ''job'' []] None) ''B'' 30 True)
           \<lparr>timestamp := Some 2000\<rparr>],
      LearningSystem.patterns =
        [(''query:unit'',
          \<lparr>pattern = ''show units'', frequency = 1, avgDuration = 20, successRate = 1,
           lastUsed = 1000\<rparr>),
         (''query:job'',
          \<lparr>pattern = ''show jobs'', frequency = 1, avgDuration = 30, successRate = 1,
           lastUsed = 2000\<rparr>)],
      serverPerformance =
        [(''A'',
          \<lparr>ServerPerformance.totalRequests = 1, successfulRequests = 1,
           ServerPerformance.avgResponseTime = 20, ServerPerformance.errorRate = 0,
           ServerPerformance.patterns =
             [(''query:unit'', \<lparr>count = 1, patternSuccessRate = 1\<rparr>)]\<rparr>),
         (''B'',
          \<lparr>ServerPerformance.totalRequests = 1, successfulRequests = 1,
           ServerPerformance.avgResponseTime = 30, ServerPerformance.errorRate = 0,
           ServerPerformance.patterns =
             [(''query:job'', \<lparr>count = 1, patternSuccessRate = 1\<rparr>)]\<rparr>)],
      maxHistorySize = 1000\<rparr>"
  by code_simp

text \<open>
  C8 as stated fails twice at one input: after a single recorded interaction routed to A
  whose result was invalid, A's errorRate is 1 and B has no entry in the
  server-performance map. Feedback on that interaction with \<open>helpful = false\<close> and
  \<open>correctServer = B\<close> leaves B without an entry (no count of B increases) and leaves A's
  errorRate at 1 (the increment is capped).
\<close>

theorem C8_feedback_without_effect:
  "getServerPerformance learnedOnce ''B'' = None
   \<and> map_option ServerPerformance.errorRate (getServerPerformance learnedOnce ''A'') = Some 1
   \<and> getServerPerformance
        (recordFeedback learnedOnce ''1000-create job'' (mkFeedback False (Some ''B''))) ''B''
      = None
   \<and> map_option ServerPerformance.errorRate
        (getServerPerformance
           (recordFeedback learnedOnce ''1000-create job'' (mkFeedback False (Some ''B''))) ''A'')
      = Some 1"
  by (simp add: learnedOnce_value feedback_defs)

text \<open>
  C8, amended. Let feedback with \<open>helpful = false\<close> and a non-empty \<open>correctServer = B\<close> be
  recorded for an interaction that \<open>recordFeedback\<close> finds and that was routed to a server
  A other than B. If B has an entry in the server-performance map, its successful-request
  and total-request counts each grow by one, and nothing else of the entry changes; if B
  has none, it gets none. If A has an entry, its errorRate becomes
  \<open>min (errorRate + 0.1) 1\<close>, and nothing else of the entry changes.
\<close>

theorem C8_feedback_adjusts_existing_entries:
  assumes "List.find (\<lambda>x. interactionId x = iid) (interactions ls) = Some ia"
    and "helpful fb = False" and "correctServer fb = Some B" and "B \<noteq> []"
    and "RoutingDecision.server (routing ia) = A" and "A \<noteq> B"
  shows "getServerPerformance (recordFeedback ls iid fb) B
         = map_option
             (\<lambda>p. p\<lparr>successfulRequests := successfulRequests p + 1,
                     ServerPerformance.totalRequests := ServerPerformance.totalRequests p + 1\<rparr>)
             (getServerPerformance ls B)
       \<and> getServerPerformance (recordFeedback ls iid fb) A
         = map_option
             (\<lambda>q. q\<lparr>ServerPerformance.errorRate := min (ServerPerformance.errorRate q + 0.1) 1\<rparr>)
             (getServerPerformance ls A)"
  using assms
  by (auto simp: recordFeedback_def adjustServerPreference_def getServerPerformance_def Let_def
        jmap_get_set split: option.splits)

theorem C8_feedback_adjusts_existing_entries_witness:
  "map_option (\<lambda>p. (successfulRequests p, ServerPerformance.totalRequests p))
     (getServerPerformance learnedTwice ''B'') = Some (1, 1)
   \<and> map_option ServerPerformance.errorRate (getServerPerformance learnedTwice ''A'') = Some 0
   \<and> map_option (\<lambda>p. (successfulRequests p, ServerPerformance.totalRequests p))
       (getServerPerformance
          (recordFeedback learnedTwice ''1000-show units'' (mkFeedback False (Some ''B''))) ''B'')
     = Some (2, 2)
   \<and> map_option ServerPerformance.errorRate
       (getServerPerformance
          (recordFeedback learnedTwice ''1000-show units'' (mkFeedback False (Some ''B''))) ''A'')
     = Some 0.1"
proof -
  define ia where
    "ia = (mkInteraction ''show units'' (mkIntent Query [mkEntity ''unit'' []] None) ''A'' 20 True)
            \<lparr>timestamp := Some 1000\<rparr>"
  define fb where "fb = mkFeedback False (Some ''B'')"
  have h1: "List.find (\<lambda>x. interactionId x = ''1000-show units'') (interactions learnedTwice)
            = Some ia"
    by (simp add: learnedTwice_value ia_def interactionId_def show_int_def mkInteraction_def)
  have h2: "helpful fb = False" and h3: "correctServer fb = Some ''B''"
    by (simp_all add: fb_def mkFeedback_def)
  have h5: "RoutingDecision.server (routing ia) = ''A''"
    by (simp add: ia_def mkInteraction_def mkRouting_def)
  have before_B: "getServerPerformance learnedTwice ''B''
      = Some \<lparr>ServerPerformance.totalRequests = 1, successfulRequests = 1,
              ServerPerformance.avgResponseTime = 30, ServerPerformance.errorRate = 0,
              ServerPerformance.patterns =
                [(''query:job'', \<lparr>count = 1, patternSuccessRate = 1\<rparr>)]\<rparr>"
    by (simp add: learnedTwice_value getServerPerformance_def jmap_get_def)
  have before_A: "getServerPerformance learnedTwice ''A''
      = Some \<lparr>ServerPerformance.totalRequests = 1, successfulRequests = 1,
              ServerPerformance.avgResponseTime = 20, ServerPerformance.errorRate = 0,
              ServerPerformance.patterns =
                [(''query:unit'', \<lparr>count = 1, patternSuccessRate = 1\<rparr>)]\<rparr>"
    by (simp add: learnedTwice_value getServerPerformance_def jmap_get_def)
  from C8_feedback_adjusts_existing_entries [OF h1 h2 h3 _ h5]
  have after: "getServerPerformance (recordFeedback learnedTwice ''1000-show units'' fb) ''B''
         = map_option
             (\<lambda>p. p\<lparr>successfulRequests := successfulRequests p + 1,
                     ServerPerformance.totalRequests := ServerPerformance.totalRequests p + 1\<rparr>)
             (getServerPerformance learnedTwice ''B'')
       \<and> getServerPerformance (recordFeedback learnedTwice ''1000-show units'' fb) ''A''
         = map_option
             (\<lambda>q. q\<lparr>ServerPerformance.errorRate := min (ServerPerformance.errorRate q + 0.1) 1\<rparr>)
             (getServerPerformance learnedTwice ''A'')"
    by simp
  show ?thesis
    using after unfolding before_A before_B fb_def [symmetric] by simp
qed

end
